theory Spec2Isabelle
  imports Complex_Main
begin

section \<open>JavaScript values and the object store\<close>

text \<open>
  The module works on values of type \<^verbatim>\<open>unknown\<close>, so the embedding starts with the
  values of the language. Primitives are values of their own; an object (a plain object,
  an array, a function, an \<^verbatim>\<open>Error\<close>, a promise, a proxy) lives in the store and is
  denoted by its address, so that \<^verbatim>\<open>===\<close> on objects is equality of addresses and a
  structure may refer to itself.
\<close>

type_synonym addr = nat

datatype jsnum = NaN | PosInfinity | NegInfinity | Finite real

datatype jsval =
    Undefined
  | Null
  | Bool bool
  | Num jsnum
  | BigInt int
  | Str string
  | Symbol nat string
  | Ref addr

text \<open>
  A property is a data property, holding a value, or an accessor, whose read calls a
  getter: code of the user that may return anything, throw, and change the store.
\<close>

datatype property = Data jsval | Accessor

text \<open>
  The state a promise settles in: it is fulfilled with a value, rejected with a reason,
  or never settles.
\<close>

datatype settlement = Pending | Fulfilled jsval | Rejected jsval

datatype intrinsic = Promise_prototype_then | Promise_prototype_catch

text \<open>
  The one function the module passes as a callback: \<^verbatim>\<open>toNormalizedError\<close>, in
  \<^verbatim>\<open>result.catch(toNormalizedError)\<close>.
\<close>

datatype callback = Callback_toNormalizedError

text \<open>
  The internal slot of a promise: a promise made elsewhere (by an \<^verbatim>\<open>async\<close> function,
  say), with the state it settles in, or the promise that the built-in
  \<^verbatim>\<open>promise.catch(callback)\<close> returned, which waits for \<open>promise\<close> and then runs the
  callback.
\<close>

datatype promise_slot = Settles settlement | Reaction jsval callback

text \<open>
  An object: \<open>callable\<close> tells a function (\<^verbatim>\<open>typeof\<close> is \<^verbatim>\<open>"function"\<close>) from any
  other object; \<open>proxy\<close> marks a \<^verbatim>\<open>Proxy\<close>, whose \<^verbatim>\<open>in\<close>, property reads and prototype
  are answered by traps, code of the user; \<open>error_instance\<close> holds when
  \<^verbatim>\<open>Error.prototype\<close> is on the prototype chain of an ordinary object; \<open>props\<close> holds the
  properties a read finds on the object or along its prototype chain, apart from the
  members of the built-in prototypes: the module asks for none of \<^verbatim>\<open>Object.prototype\<close>,
  and \<^verbatim>\<open>Error.prototype\<close>'s \<^verbatim>\<open>name\<close> and \<^verbatim>\<open>message\<close> are supplied by \<open>lookup\<close>. A data
  property that is present with the value \<^verbatim>\<open>undefined\<close> is \<open>Some (Data Undefined)\<close>, an
  absent property is \<open>None\<close>. \<open>promise\<close> is the internal slot of a promise and
  \<open>intrinsic\<close> marks the two built-in promise methods.
\<close>

record jsobj =
  callable :: bool
  proxy :: bool
  error_instance :: bool
  props :: "string \<rightharpoonup> property"
  promise :: "promise_slot option"
  intrinsic :: "intrinsic option"

text \<open>The record that \<^verbatim>\<open>logError\<close> hands to \<^verbatim>\<open>console.error\<close>.\<close>

record error_info =
  info_name :: jsval
  info_message :: jsval
  info_stack :: jsval

record log_record =
  log_timestamp :: string
  log_context :: jsval
  log_error :: error_info
  log_extraInfo :: jsval

text \<open>
  The store: the objects, the next free address, and what has been written to the
  diagnostic stream (latest record last).
\<close>

record store =
  objs :: "addr \<Rightarrow> jsobj"
  next_addr :: addr
  console :: "log_record list"

definition alloc :: "store \<Rightarrow> jsobj \<Rightarrow> jsval \<times> store" where
  "alloc s obj =
     (Ref (next_addr s),
      s\<lparr>objs := (objs s)(next_addr s := obj), next_addr := Suc (next_addr s)\<rparr>)"

text \<open>
  The outcome of a step that may throw: \<open>Inl\<close> the value thrown, \<open>Inr\<close> the value
  returned, with the store the step leaves. \<open>and_then\<close> runs the next step after one
  that returned, and \<open>andalso\<close> is \<^verbatim>\<open>&&\<close>: the right operand is evaluated only when the
  left one is true.
\<close>

type_synonym 'a outcome = "(jsval + 'a) \<times> store"

definition and_then :: "'a outcome \<Rightarrow> ('a \<Rightarrow> store \<Rightarrow> 'b outcome) \<Rightarrow> 'b outcome" where
  "and_then m f = (case m of (Inl t, s) \<Rightarrow> (Inl t, s) | (Inr x, s) \<Rightarrow> f x s)"

definition andalso :: "bool outcome \<Rightarrow> (store \<Rightarrow> bool outcome) \<Rightarrow> bool outcome" where
  "andalso m f = and_then m (\<lambda>b s. if b then f s else (Inr False, s))"

section \<open>The platform\<close>

text \<open>
  What the module calls and does not define itself: the conversions of numbers and
  objects to text, \<^verbatim>\<open>JSON.stringify\<close>, the stack trace the engine gives a new error, the
  clock, and the code of the user that the module's operations can run: getters, the
  traps of a proxy, and the methods of a thenable. They are parameters of the embedding.
  A call that may run user code takes the store and returns the new one with its
  outcome.

  \<^item> \<open>Number_toString\<close>, \<open>BigInt_toString\<close>: the text of a number;
  \<^item> \<open>Object_toString\<close>: \<^verbatim>\<open>String(obj)\<close> for an object or a function;
  \<^item> \<open>JSON_serialize\<close>: \<^verbatim>\<open>JSON.stringify(value)\<close> for a value other than \<^verbatim>\<open>null\<close>; the
    result is a text or \<^verbatim>\<open>undefined\<close> (\<open>None\<close>);
  \<^item> \<open>capture_stack\<close>: the \<^verbatim>\<open>stack\<close> of a new error with the given message, \<open>None\<close> on
    an engine that records none;
  \<^item> \<open>current_time\<close>: \<^verbatim>\<open>new Date().toISOString()\<close>;
  \<^item> \<open>run_getter\<close>: the getter of the accessor property \<open>key\<close> of an object;
  \<^item> \<open>proxy_has\<close>, \<open>proxy_get\<close>, \<open>proxy_instanceof_Error\<close>: \<^verbatim>\<open>key in p\<close>, \<^verbatim>\<open>p.key\<close> and
    \<^verbatim>\<open>p instanceof Error\<close> for a proxy \<open>p\<close>;
  \<^item> \<open>foreign_catch\<close>: \<^verbatim>\<open>value.catch(handler)\<close> where the method is not the built-in one
    of a promise;
  \<^item> \<open>thenable_settlement\<close>: how a promise resolved with a thenable settles.
\<close>

record platform =
  Number_toString :: "jsnum \<Rightarrow> string"
  BigInt_toString :: "int \<Rightarrow> string"
  Object_toString :: "store \<Rightarrow> addr \<Rightarrow> string outcome"
  JSON_serialize :: "store \<Rightarrow> jsval \<Rightarrow> string option outcome"
  capture_stack :: "string \<Rightarrow> string option"
  current_time :: string
  run_getter :: "store \<Rightarrow> addr \<Rightarrow> string \<Rightarrow> jsval outcome"
  proxy_has :: "store \<Rightarrow> addr \<Rightarrow> string \<Rightarrow> bool outcome"
  proxy_get :: "store \<Rightarrow> addr \<Rightarrow> string \<Rightarrow> jsval outcome"
  proxy_instanceof_Error :: "store \<Rightarrow> addr \<Rightarrow> bool outcome"
  foreign_catch :: "store \<Rightarrow> jsval \<Rightarrow> (store \<Rightarrow> jsval \<Rightarrow> jsval outcome) \<Rightarrow> jsval outcome"
  thenable_settlement :: "store \<Rightarrow> jsval \<Rightarrow> settlement"

subsection \<open>Errors made by the engine\<close>

text \<open>
  \<^verbatim>\<open>new Error(message)\<close>: a new object with its own \<^verbatim>\<open>message\<close> and, where the engine
  records one, its own \<^verbatim>\<open>stack\<close>; \<^verbatim>\<open>name\<close> is inherited.
\<close>

definition new_Error :: "platform \<Rightarrow> store \<Rightarrow> string \<Rightarrow> jsval \<times> store" where
  "new_Error P s msg =
     alloc s \<lparr>callable = False, proxy = False, error_instance = True,
              props = (case capture_stack P msg of
                         Some t \<Rightarrow> [''message'' \<mapsto> Data (Str msg), ''stack'' \<mapsto> Data (Str t)]
                       | None \<Rightarrow> [''message'' \<mapsto> Data (Str msg)]),
              promise = None, intrinsic = None\<rparr>"

text \<open>A TypeError that the engine throws, with the trace \<open>capture\<close> gives it.\<close>

definition raise_TypeError :: "(string \<Rightarrow> string option) \<Rightarrow> store \<Rightarrow> string \<Rightarrow> 'a outcome" where
  "raise_TypeError capture s msg =
     (case alloc s \<lparr>callable = False, proxy = False, error_instance = True,
                    props = (case capture msg of
                               Some t \<Rightarrow> [''name'' \<mapsto> Data (Str ''TypeError''),
                                          ''message'' \<mapsto> Data (Str msg), ''stack'' \<mapsto> Data (Str t)]
                             | None \<Rightarrow> [''name'' \<mapsto> Data (Str ''TypeError''),
                                        ''message'' \<mapsto> Data (Str msg)]),
                    promise = None, intrinsic = None\<rparr>
      of (e, s1) \<Rightarrow> (Inl e, s1))"

definition throw_TypeError :: "platform \<Rightarrow> store \<Rightarrow> string \<Rightarrow> 'a outcome" where
  "throw_TypeError P s msg = raise_TypeError (capture_stack P) s msg"

subsection \<open>Operators of the language\<close>

text \<open>\<^verbatim>\<open>typeof value\<close>\<close>

definition typeof :: "store \<Rightarrow> jsval \<Rightarrow> string" where
  "typeof s v =
     (case v of
        Undefined \<Rightarrow> ''undefined''
      | Null \<Rightarrow> ''object''
      | Bool _ \<Rightarrow> ''boolean''
      | Num _ \<Rightarrow> ''number''
      | BigInt _ \<Rightarrow> ''bigint''
      | Str _ \<Rightarrow> ''string''
      | Symbol _ _ \<Rightarrow> ''symbol''
      | Ref a \<Rightarrow> if callable (objs s a) then ''function'' else ''object'')"

text \<open>\<^verbatim>\<open>!!value\<close>\<close>

definition truthy :: "jsval \<Rightarrow> bool" where
  "truthy v =
     (case v of
        Undefined \<Rightarrow> False
      | Null \<Rightarrow> False
      | Bool b \<Rightarrow> b
      | Num n \<Rightarrow> (case n of NaN \<Rightarrow> False | Finite x \<Rightarrow> x \<noteq> 0 | _ \<Rightarrow> True)
      | BigInt i \<Rightarrow> i \<noteq> 0
      | Str t \<Rightarrow> t \<noteq> []
      | Symbol _ _ \<Rightarrow> True
      | Ref _ \<Rightarrow> True)"

text \<open>What every \<^verbatim>\<open>Error\<close> instance inherits from \<^verbatim>\<open>Error.prototype\<close>.\<close>

definition Error_prototype :: "string \<rightharpoonup> property" where
  "Error_prototype = [''name'' \<mapsto> Data (Str ''Error''), ''message'' \<mapsto> Data (Str '''')]"

definition lookup :: "jsobj \<Rightarrow> string \<Rightarrow> property option" where
  "lookup obj key =
     (case props obj key of
        Some p \<Rightarrow> Some p
      | None \<Rightarrow> if error_instance obj then Error_prototype key else None)"

text \<open>
  \<^verbatim>\<open>key in value\<close>: on an ordinary object the property is looked up, a proxy runs its
  trap, and on a primitive the operator throws a TypeError.
\<close>

definition has_property :: "platform \<Rightarrow> store \<Rightarrow> string \<Rightarrow> jsval \<Rightarrow> bool outcome" where
  "has_property P s key v =
     (case v of
        Ref a \<Rightarrow>
          if proxy (objs s a) then proxy_has P s a key
          else (Inr (lookup (objs s a) key \<noteq> None), s)
      | _ \<Rightarrow> throw_TypeError P s ''Cannot use the in operator on a primitive'')"

text \<open>
  \<^verbatim>\<open>value.key\<close>: a data property gives its value, an accessor runs its getter, a proxy
  runs its trap, and an absent property reads as \<^verbatim>\<open>undefined\<close>. Reading a property of
  \<^verbatim>\<open>null\<close> or \<^verbatim>\<open>undefined\<close> throws a TypeError; the other primitives have none of the
  properties the module reads.
\<close>

definition get_property :: "platform \<Rightarrow> store \<Rightarrow> jsval \<Rightarrow> string \<Rightarrow> jsval outcome" where
  "get_property P s v key =
     (case v of
        Ref a \<Rightarrow>
          if proxy (objs s a) then proxy_get P s a key
          else (case lookup (objs s a) key of
                  Some (Data x) \<Rightarrow> (Inr x, s)
                | Some Accessor \<Rightarrow> run_getter P s a key
                | None \<Rightarrow> (Inr Undefined, s))
      | Undefined \<Rightarrow> throw_TypeError P s ''Cannot read properties of undefined''
      | Null \<Rightarrow> throw_TypeError P s ''Cannot read properties of null''
      | _ \<Rightarrow> (Inr Undefined, s))"

text \<open>\<^verbatim>\<open>a ?? b\<close>\<close>

definition nullish :: "jsval \<Rightarrow> bool" where
  "nullish v = (v = Null \<or> v = Undefined)"

definition coalesce :: "jsval \<Rightarrow> jsval \<Rightarrow> jsval" where
  "coalesce a b = (if nullish a then b else a)"

text \<open>
  \<^verbatim>\<open>value instanceof Error\<close>: the prototype chain of an ordinary object is fixed in
  \<open>error_instance\<close>; a proxy answers through its trap.
\<close>

definition instanceof_Error :: "platform \<Rightarrow> store \<Rightarrow> jsval \<Rightarrow> bool outcome" where
  "instanceof_Error P s v =
     (case v of
        Ref a \<Rightarrow>
          if proxy (objs s a) then proxy_instanceof_Error P s a
          else (Inr (error_instance (objs s a)), s)
      | _ \<Rightarrow> (Inr False, s))"

subsection \<open>Objects with data properties\<close>

text \<open>
  The value of a data property, and whether a property is there, for an ordinary
  object; \<open>plain\<close> holds of a primitive and of an ordinary object all of whose
  properties are data properties. Reads of a plain value run no code of the user.
\<close>

definition field :: "store \<Rightarrow> jsval \<Rightarrow> string \<Rightarrow> jsval" where
  "field s v key =
     (case v of
        Ref a \<Rightarrow> (case lookup (objs s a) key of Some (Data x) \<Rightarrow> x | _ \<Rightarrow> Undefined)
      | _ \<Rightarrow> Undefined)"

definition has_field :: "store \<Rightarrow> string \<Rightarrow> jsval \<Rightarrow> bool" where
  "has_field s key v = (case v of Ref a \<Rightarrow> lookup (objs s a) key \<noteq> None | _ \<Rightarrow> False)"

definition plain :: "store \<Rightarrow> jsval \<Rightarrow> bool" where
  "plain s v =
     (case v of
        Ref a \<Rightarrow> \<not> proxy (objs s a) \<and> (\<forall>key. props (objs s a) key \<noteq> Some Accessor)
      | _ \<Rightarrow> True)"

section \<open>The type guards\<close>

definition isError :: "platform \<Rightarrow> store \<Rightarrow> jsval \<Rightarrow> bool outcome" where
  "isError P s value =
     andalso (Inr (truthy value), s) (\<lambda>s.
     andalso (Inr (typeof s value = ''object''), s) (\<lambda>s.
     andalso (has_property P s ''message'' value) (\<lambda>s.
     andalso (and_then (get_property P s value ''message'')
                (\<lambda>message s. (Inr (typeof s message = ''string''), s))) (\<lambda>s.
     andalso (has_property P s ''stack'' value) (\<lambda>s.
     and_then (get_property P s value ''stack'')
       (\<lambda>stack s. (Inr (typeof s stack = ''string''), s)))))))"

definition isNormalizedError :: "platform \<Rightarrow> store \<Rightarrow> jsval \<Rightarrow> bool outcome" where
  "isNormalizedError P s value =
     andalso (isError P s value) (\<lambda>s.
     andalso (has_property P s ''originalValue'' value) (\<lambda>s.
     and_then (get_property P s value ''stack'')
       (\<lambda>stack s. (Inr (stack \<noteq> Undefined), s))))"

definition isPromise :: "platform \<Rightarrow> store \<Rightarrow> jsval \<Rightarrow> bool outcome" where
  "isPromise P s result =
     andalso (Inr (truthy result), s) (\<lambda>s.
     andalso (Inr (typeof s result = ''object''), s) (\<lambda>s.
     andalso (has_property P s ''then'' result) (\<lambda>s.
     andalso (and_then (get_property P s result ''then'')
                (\<lambda>then_method s. (Inr (typeof s then_method = ''function''), s))) (\<lambda>s.
     andalso (has_property P s ''catch'' result) (\<lambda>s.
     and_then (get_property P s result ''catch'')
       (\<lambda>catch_method s. (Inr (typeof s catch_method = ''function''), s)))))))"

section \<open>Conversions to text\<close>

text \<open>
  \<^verbatim>\<open>String(value)\<close>: the text of a primitive is fixed by the language; only an object
  can make the conversion raise.
\<close>

definition String_js :: "platform \<Rightarrow> store \<Rightarrow> jsval \<Rightarrow> string outcome" where
  "String_js P s v =
     (case v of
        Undefined \<Rightarrow> (Inr ''undefined'', s)
      | Null \<Rightarrow> (Inr ''null'', s)
      | Bool b \<Rightarrow> (Inr (if b then ''true'' else ''false''), s)
      | Num n \<Rightarrow> (Inr (Number_toString P n), s)
      | BigInt i \<Rightarrow> (Inr (BigInt_toString P i), s)
      | Str t \<Rightarrow> (Inr t, s)
      | Symbol _ d \<Rightarrow> (Inr (''Symbol('' @ d @ '')''), s)
      | Ref a \<Rightarrow> Object_toString P s a)"

text \<open>
  The conversion that \<^verbatim>\<open>new Error(message)\<close> applies to its argument: as \<^verbatim>\<open>String\<close>, but a
  symbol throws a TypeError.
\<close>

definition ToString :: "platform \<Rightarrow> store \<Rightarrow> jsval \<Rightarrow> string outcome" where
  "ToString P s v =
     (case v of
        Symbol _ _ \<Rightarrow> throw_TypeError P s ''Cannot convert a Symbol value to a string''
      | _ \<Rightarrow> String_js P s v)"

text \<open>\<^verbatim>\<open>JSON.stringify(value)\<close>: \<^verbatim>\<open>null\<close> is serialized as the text \<^verbatim>\<open>null\<close>.\<close>

definition JSON_stringify :: "platform \<Rightarrow> store \<Rightarrow> jsval \<Rightarrow> string option outcome" where
  "JSON_stringify P s v =
     (case v of Null \<Rightarrow> (Inr (Some ''null''), s) | _ \<Rightarrow> JSON_serialize P s v)"

text \<open>
  A value inside a template literal: \<^verbatim>\<open>JSON.stringify\<close> may return \<^verbatim>\<open>undefined\<close>, which
  the template prints as such.
\<close>

definition template_text :: "string option \<Rightarrow> string" where
  "template_text r = (case r of Some t \<Rightarrow> t | None \<Rightarrow> ''undefined'')"

section \<open>NormalizedError\<close>

text \<open>
  \<^verbatim>\<open>new NormalizedError(error, originalValue)\<close>; an omitted second argument is
  \<^verbatim>\<open>undefined\<close>. \<^verbatim>\<open>super(error.message)\<close> reads \<^verbatim>\<open>error.message\<close> and the \<^verbatim>\<open>Error\<close>
  constructor stores the text of what was read; for \<^verbatim>\<open>undefined\<close> it stores nothing and
  \<^verbatim>\<open>this.message\<close> is the empty text of \<^verbatim>\<open>Error.prototype\<close>. The module never tells an own
  property from an inherited one, so the instance holds that empty text. The trace that
  \<^verbatim>\<open>super\<close> records and the initial value \<^verbatim>\<open>""\<close> of the field \<^verbatim>\<open>stack\<close> are overwritten by
  the assignment \<^verbatim>\<open>this.stack = error.stack ?? this.message\<close>, which reads \<^verbatim>\<open>error.stack\<close>.
\<close>

definition Error_message :: "platform \<Rightarrow> store \<Rightarrow> jsval \<Rightarrow> jsval outcome" where
  "Error_message P s message =
     (if message = Undefined then (Inr (Str []), s)
      else and_then (ToString P s message) (\<lambda>text s. (Inr (Str text), s)))"

definition NormalizedError_instance :: "jsval \<Rightarrow> jsval \<Rightarrow> jsval \<Rightarrow> jsobj" where
  "NormalizedError_instance this_message this_stack this_originalValue =
     \<lparr>callable = False, proxy = False, error_instance = True,
      props = [''message'' \<mapsto> Data this_message,
               ''stack'' \<mapsto> Data this_stack,
               ''originalValue'' \<mapsto> Data this_originalValue],
      promise = None, intrinsic = None\<rparr>"

definition NormalizedError :: "platform \<Rightarrow> store \<Rightarrow> jsval \<Rightarrow> jsval \<Rightarrow> jsval outcome" where
  "NormalizedError P s error originalValue =
     and_then (get_property P s error ''message'') (\<lambda>error_message s.
     and_then (Error_message P s error_message) (\<lambda>this_message s.
     and_then (get_property P s error ''stack'') (\<lambda>error_stack s.
       (case alloc s (NormalizedError_instance this_message
                        (coalesce error_stack this_message)
                        (coalesce originalValue error))
        of (this, s) \<Rightarrow> (Inr this, s)))))"

text \<open>
  \<^verbatim>\<open>toNormalizedError(value)\<close>. \<^verbatim>\<open>isError(value)\<close> and \<^verbatim>\<open>new NormalizedError(value)\<close> run
  outside the \<^verbatim>\<open>try\<close>. The \<^verbatim>\<open>try\<close> block is \<open>unexpected_value\<close>: the text of the value,
  then the two constructors; whatever it throws is dropped by the \<^verbatim>\<open>catch\<close>.
\<close>

definition value_text :: "platform \<Rightarrow> store \<Rightarrow> jsval \<Rightarrow> string outcome" where
  "value_text P s value =
     (if typeof s value = ''object''
      then and_then (JSON_stringify P s value) (\<lambda>r s. (Inr (template_text r), s))
      else String_js P s value)"

definition unexpected_value :: "platform \<Rightarrow> store \<Rightarrow> jsval \<Rightarrow> jsval outcome" where
  "unexpected_value P s value =
     and_then (value_text P s value) (\<lambda>text s.
       (case new_Error P s (''Unexpected value thrown: '' @ text) of
          (e, s) \<Rightarrow> NormalizedError P s e value))"

definition toNormalizedError :: "platform \<Rightarrow> store \<Rightarrow> jsval \<Rightarrow> jsval outcome" where
  "toNormalizedError P s value =
     and_then (isError P s value) (\<lambda>error_like s.
       if error_like then NormalizedError P s value Undefined
       else (case unexpected_value P s value of
               (Inr n, s) \<Rightarrow> (Inr n, s)
             | (Inl _, s) \<Rightarrow>
                 (case new_Error P s ''Unexpected value thrown: non-stringifiable object'' of
                    (e, s) \<Rightarrow> NormalizedError P s e value)))"

section \<open>noThrow\<close>

definition run_callback :: "platform \<Rightarrow> callback \<Rightarrow> store \<Rightarrow> jsval \<Rightarrow> jsval outcome" where
  "run_callback P cb = (case cb of Callback_toNormalizedError \<Rightarrow> toNormalizedError P)"

text \<open>
  A promise of the language: an ordinary object with the internal slot whose \<^verbatim>\<open>then\<close> and
  \<^verbatim>\<open>catch\<close> are the built-in methods and whose \<^verbatim>\<open>constructor\<close> is the inherited one (the
  store lists no property inherited from \<^verbatim>\<open>Promise.prototype\<close> but these two methods), so
  that the built-in \<^verbatim>\<open>catch\<close> makes its result with the built-in constructor.
\<close>

definition intrinsic_of :: "store \<Rightarrow> jsval \<Rightarrow> intrinsic option" where
  "intrinsic_of s f = (case f of Ref a \<Rightarrow> intrinsic (objs s a) | _ \<Rightarrow> None)"

definition native_promise :: "store \<Rightarrow> jsval \<Rightarrow> bool" where
  "native_promise s v =
     (case v of
        Ref a \<Rightarrow>
          \<not> proxy (objs s a) \<and> promise (objs s a) \<noteq> None \<and>
          lookup (objs s a) ''constructor'' = None \<and>
          (case lookup (objs s a) ''then'' of
             Some (Data f) \<Rightarrow> intrinsic_of s f = Some Promise_prototype_then
           | _ \<Rightarrow> False) \<and>
          (case lookup (objs s a) ''catch'' of
             Some (Data f) \<Rightarrow> intrinsic_of s f = Some Promise_prototype_catch
           | _ \<Rightarrow> False)
      | _ \<Rightarrow> False)"

text \<open>
  The built-in \<^verbatim>\<open>promise.catch(callback)\<close>: it returns at once a new promise that waits
  for the first one.
\<close>

definition Promise_catch :: "store \<Rightarrow> jsval \<Rightarrow> callback \<Rightarrow> jsval \<times> store" where
  "Promise_catch s p cb =
     alloc s \<lparr>callable = False, proxy = False, error_instance = False,
              props = [''then'' \<mapsto> Data (field s p ''then''),
                       ''catch'' \<mapsto> Data (field s p ''catch'')],
              promise = Some (Reaction p cb), intrinsic = None\<rparr>"



text \<open>\<^verbatim>\<open>result.catch(callback)\<close>\<close>

definition invoke_catch :: "platform \<Rightarrow> store \<Rightarrow> jsval \<Rightarrow> callback \<Rightarrow> jsval outcome" where
  "invoke_catch P s result cb =
     (if native_promise s result
      then (case Promise_catch s result cb of (p, s1) \<Rightarrow> (Inr p, s1))
      else foreign_catch P s result (run_callback P cb))"

text \<open>
  \<^verbatim>\<open>noThrow(action)\<close>. The action is what calling it does: on a store it returns a value
  or throws one, and leaves a new store. Everything up to the \<^verbatim>\<open>return\<close> is inside the
  \<^verbatim>\<open>try\<close>; \<^verbatim>\<open>toNormalizedError(error)\<close> in the \<^verbatim>\<open>catch\<close> block is not.
\<close>

definition noThrow_try :: "platform \<Rightarrow> store \<Rightarrow> (store \<Rightarrow> jsval outcome) \<Rightarrow> jsval outcome" where
  "noThrow_try P s action =
     and_then (action s) (\<lambda>result s.
     and_then (isPromise P s result) (\<lambda>promise_like s.
       if promise_like then invoke_catch P s result Callback_toNormalizedError
       else (Inr result, s)))"

definition noThrow :: "platform \<Rightarrow> store \<Rightarrow> (store \<Rightarrow> jsval outcome) \<Rightarrow> jsval outcome" where
  "noThrow P s action =
     (case noThrow_try P s action of
        (Inr r, s1) \<Rightarrow> (Inr r, s1)
      | (Inl error, s1) \<Rightarrow> toNormalizedError P s1 error)"

section \<open>logError\<close>

definition empty_object :: jsobj where
  "empty_object =
     \<lparr>callable = False, proxy = False, error_instance = False, props = Map.empty,
      promise = None, intrinsic = None\<rparr>"

text \<open>\<^verbatim>\<open>console.error(record)\<close>\<close>

definition console_error :: "store \<Rightarrow> log_record \<Rightarrow> store" where
  "console_error s r = s\<lparr>console := console s @ [r]\<rparr>"

text \<open>
  \<^verbatim>\<open>error instanceof Error ? error : new Error(String(error))\<close>
\<close>

definition errorObject_of :: "platform \<Rightarrow> store \<Rightarrow> jsval \<Rightarrow> jsval outcome" where
  "errorObject_of P s error =
     and_then (instanceof_Error P s error) (\<lambda>is_instance s.
       if is_instance then (Inr error, s)
       else and_then (String_js P s error) (\<lambda>text s.
              (case new_Error P s text of (e, s) \<Rightarrow> (Inr e, s))))"

text \<open>
  \<^verbatim>\<open>logError(error, context, extraInfo)\<close>; a parameter's default is taken when the
  argument is \<^verbatim>\<open>undefined\<close> or omitted. The function returns \<^verbatim>\<open>undefined\<close>.
\<close>

definition default_context :: "jsval \<Rightarrow> jsval" where
  "default_context context = (if context = Undefined then Str ''General context'' else context)"

definition default_extraInfo :: "store \<Rightarrow> jsval \<Rightarrow> jsval \<times> store" where
  "default_extraInfo s extraInfo =
     (if extraInfo = Undefined then alloc s empty_object else (extraInfo, s))"

definition logError :: "platform \<Rightarrow> store \<Rightarrow> jsval \<Rightarrow> jsval \<Rightarrow> jsval \<Rightarrow> jsval outcome" where
  "logError P s error context extraInfo =
     (let context1 = default_context context;
          (extraInfo1, s0) = default_extraInfo s extraInfo
      in and_then (errorObject_of P s0 error) (\<lambda>errorObject s.
         and_then (get_property P s errorObject ''name'') (\<lambda>name s.
         and_then (get_property P s errorObject ''message'') (\<lambda>message s.
         and_then (get_property P s errorObject ''stack'') (\<lambda>stack s.
           (Inr Undefined,
            console_error s
              \<lparr>log_timestamp = current_time P,
               log_context = context1,
               log_error =
                 \<lparr>info_name = coalesce name (Str ''No name available''),
                  info_message = coalesce message (Str ''No message available''),
                  info_stack = coalesce stack (Str ''No stack trace available'')\<rparr>,
               log_extraInfo = extraInfo1\<rparr>))))))"

section \<open>Examples\<close>

definition plain_object :: "(string \<rightharpoonup> property) \<Rightarrow> jsobj" where
  "plain_object ps =
     \<lparr>callable = False, proxy = False, error_instance = False, props = ps,
      promise = None, intrinsic = None\<rparr>"

definition function_object :: "intrinsic option \<Rightarrow> jsobj" where
  "function_object i =
     \<lparr>callable = True, proxy = False, error_instance = False, props = Map.empty,
      promise = None, intrinsic = i\<rparr>"

definition error_object :: "(string \<rightharpoonup> property) \<Rightarrow> jsobj" where
  "error_object ps =
     \<lparr>callable = False, proxy = False, error_instance = True, props = ps,
      promise = None, intrinsic = None\<rparr>"

definition promise_object :: "settlement \<Rightarrow> jsobj" where
  "promise_object st =
     \<lparr>callable = False, proxy = False, error_instance = False,
      props = [''then'' \<mapsto> Data (Ref 6), ''catch'' \<mapsto> Data (Ref 7)],
      promise = Some (Settles st), intrinsic = None\<rparr>"

text \<open>\<^verbatim>\<open>this.reads++\<close> inside a getter of the object at \<open>a\<close>, from 0 to 1.\<close>

definition count_read :: "store \<Rightarrow> addr \<Rightarrow> store" where
  "count_read s a =
     s\<lparr>objs := (objs s)
          (a := (objs s a)\<lparr>props := (props (objs s a))(''reads'' \<mapsto> Data (Num (Finite 1)))\<rparr>)\<rparr>"

text \<open>
  An engine, with the code of the user, for the examples. An object prints as
  \<^verbatim>\<open>[object Object]\<close>, unless its \<^verbatim>\<open>toString\<close> is \<^verbatim>\<open>undefined\<close>: such an object has no text
  and the conversion throws a TypeError. The serializer throws a TypeError on an object
  whose property \<^verbatim>\<open>self\<close> is the object itself and prints any other value as \<^verbatim>\<open>{}\<close>; a new
  error's trace is its headline. A getter named \<^verbatim>\<open>message\<close> is
  \<^verbatim>\<open>get message() { throw "boom" }\<close>, and any other getter is
  \<^verbatim>\<open>get stack() { return this.reads++ === 0 ? "s" : undefined }\<close>. The store of the
  examples holds no proxy. A user-defined \<^verbatim>\<open>catch\<close> method ignores its handler and returns
  the number 5. No example uses the text of a number.
\<close>

definition example_platform :: platform where
  "example_platform =
     \<lparr>Number_toString = (\<lambda>n. ''0''),
      BigInt_toString = (\<lambda>i. ''0''),
      Object_toString =
        (\<lambda>s a. if props (objs s a) ''toString'' = Some (Data Undefined)
                then raise_TypeError (\<lambda>msg. Some (''TypeError: '' @ msg)) s
                       ''Cannot convert object to primitive value''
                else (Inr ''[object Object]'', s)),
      JSON_serialize =
        (\<lambda>s v. if field s v ''self'' = v
                then raise_TypeError (\<lambda>msg. Some (''TypeError: '' @ msg)) s
                       ''Converting circular structure to JSON''
                else (Inr (Some ''{}''), s)),
      capture_stack = (\<lambda>msg. Some (''Error: '' @ msg)),
      current_time = ''2024-01-01T00:00:00.000Z'',
      run_getter =
        (\<lambda>s a key. if key = ''message'' then (Inl (Str ''boom''), s)
                    else if field s (Ref a) ''reads'' = Num (Finite 0)
                    then (Inr (Str ''s''), count_read s a)
                    else (Inr Undefined, s)),
      proxy_has = (\<lambda>s a key. (Inr False, s)),
      proxy_get = (\<lambda>s a key. (Inr Undefined, s)),
      proxy_instanceof_Error = (\<lambda>s a. (Inr False, s)),
      foreign_catch = (\<lambda>s v handler. (Inr (Num (Finite 5)), s)),
      thenable_settlement = (\<lambda>s x. Pending)\<rparr>"

text \<open>
  A store for the examples:
  \<^item> 0: \<^verbatim>\<open>{message: "m", stack: ""}\<close>;
  \<^item> 1: \<^verbatim>\<open>{message: "m"}\<close>;
  \<^item> 2: \<^verbatim>\<open>new Error("x")\<close>;
  \<^item> 3: \<^verbatim>\<open>o\<close> after \<^verbatim>\<open>o.self = o\<close>;
  \<^item> 4: a user's function;
  \<^item> 5: \<^verbatim>\<open>{then: f, catch: f}\<close> with \<^verbatim>\<open>f\<close> the function at 4;
  \<^item> 6, 7: the built-in \<^verbatim>\<open>then\<close> and \<^verbatim>\<open>catch\<close> of promises;
  \<^item> 8: a promise rejected with \<^verbatim>\<open>"boom"\<close>;
  \<^item> 9: a promise fulfilled with \<^verbatim>\<open>7\<close>;
  \<^item> 10: \<^verbatim>\<open>e\<close> after \<^verbatim>\<open>e = new Error("x"); e.name = undefined; e.message = null\<close>;
  \<^item> 11: \<^verbatim>\<open>{message: "m", stack: "s", originalValue: 1}\<close>;
  \<^item> 12: \<^verbatim>\<open>{a: 1}\<close>;
  \<^item> 13: \<^verbatim>\<open>{toString: undefined}\<close>;
  \<^item> 14: \<^verbatim>\<open>{get message() { throw "boom" }, stack: "s"}\<close>;
  \<^item> 15: \<^verbatim>\<open>{message: "m", originalValue: 1, reads: 0,
          get stack() { return this.reads++ === 0 ? "s" : undefined }}\<close>.
\<close>

definition example_store :: store where
  "example_store =
     \<lparr>objs = (\<lambda>a. empty_object)
        (0 := plain_object [''message'' \<mapsto> Data (Str ''m''), ''stack'' \<mapsto> Data (Str [])],
         1 := plain_object [''message'' \<mapsto> Data (Str ''m'')],
         2 := error_object [''message'' \<mapsto> Data (Str ''x''),
                            ''stack'' \<mapsto> Data (Str ''Error: x'')],
         3 := plain_object [''self'' \<mapsto> Data (Ref 3)],
         4 := function_object None,
         5 := plain_object [''then'' \<mapsto> Data (Ref 4), ''catch'' \<mapsto> Data (Ref 4)],
         6 := function_object (Some Promise_prototype_then),
         7 := function_object (Some Promise_prototype_catch),
         8 := promise_object (Rejected (Str ''boom'')),
         9 := promise_object (Fulfilled (Num (Finite 7))),
         10 := error_object [''name'' \<mapsto> Data Undefined, ''message'' \<mapsto> Data Null,
                             ''stack'' \<mapsto> Data (Str ''Error: x'')],
         11 := plain_object [''message'' \<mapsto> Data (Str ''m''), ''stack'' \<mapsto> Data (Str ''s''),
                             ''originalValue'' \<mapsto> Data (Num (Finite 1))],
         12 := plain_object [''a'' \<mapsto> Data (Num (Finite 1))],
         13 := plain_object [''toString'' \<mapsto> Data Undefined],
         14 := plain_object [''message'' \<mapsto> Accessor, ''stack'' \<mapsto> Data (Str ''s'')],
         15 := plain_object [''message'' \<mapsto> Data (Str ''m''),
                             ''originalValue'' \<mapsto> Data (Num (Finite 1)),
                             ''reads'' \<mapsto> Data (Num (Finite 0)),
                             ''stack'' \<mapsto> Accessor]),
      next_addr = 16,
      console = []\<rparr>"

text \<open>
  Actions for the examples: \<^verbatim>\<open>() => v\<close> and \<^verbatim>\<open>() => { throw new Error(msg) }\<close>. An
  \<^verbatim>\<open>async\<close> function that throws returns a rejected promise, so it is \<open>returning\<close> that
  promise.
\<close>

definition returning :: "jsval \<Rightarrow> store \<Rightarrow> jsval outcome" where
  "returning v s = (Inr v, s)"

definition throwing_new_Error :: "platform \<Rightarrow> string \<Rightarrow> store \<Rightarrow> jsval outcome" where
  "throwing_new_Error P msg s = (case new_Error P s msg of (e, s1) \<Rightarrow> (Inl e, s1))"

section \<open>Properties\<close>

subsection \<open>Auxiliary facts\<close>

lemma and_then_simps:
  "and_then (Inr x, s) f = f x s"
  "and_then (Inl t, s) f = (Inl t, s)"
  by (simp_all add: and_then_def)

lemma andalso_simps:
  "andalso (Inr b, s) g = (if b then g s else (Inr False, s))"
  "andalso (Inl t, s) g = (Inl t, s)"
  by (simp_all add: andalso_def and_then_def)

lemma plain_lookup:
  assumes "plain s (Ref a)"
  shows "lookup (objs s a) key \<noteq> Some Accessor"
  using assms by (auto simp: plain_def lookup_def Error_prototype_def split: option.splits if_splits)

lemma plain_reads:
  assumes "plain s (Ref a)"
  shows "get_property P s (Ref a) key = (Inr (field s (Ref a) key), s)"
    and "has_property P s key (Ref a) = (Inr (has_field s key (Ref a)), s)"
    and "instanceof_Error P s (Ref a) = (Inr (error_instance (objs s a)), s)"
proof -
  have np: "\<not> proxy (objs s a)"
    using assms by (simp add: plain_def)
  show "get_property P s (Ref a) key = (Inr (field s (Ref a) key), s)"
    using np plain_lookup[OF assms, of key]
    by (cases "lookup (objs s a) key")
       (auto simp: get_property_def field_def split: property.splits)
  show "has_property P s key (Ref a) = (Inr (has_field s key (Ref a)), s)"
    using np by (simp add: has_property_def has_field_def)
  show "instanceof_Error P s (Ref a) = (Inr (error_instance (objs s a)), s)"
    using np by (simp add: instanceof_Error_def)
qed

lemma typeof_string_iff: "typeof s v = ''string'' \<longleftrightarrow> (\<exists>t. v = Str t)"
  by (cases v) (simp_all add: typeof_def)


lemma typeof_object_iff:
  "typeof s v = ''object'' \<longleftrightarrow> v = Null \<or> (\<exists>a. v = Ref a \<and> \<not> callable (objs s a))"
  by (cases v) (simp_all add: typeof_def)

lemma typeof_Ref: "typeof s (Ref a) = (if callable (objs s a) then ''function'' else ''object'')"
  by (simp add: typeof_def)

lemma guards_primitive:
  assumes "\<forall>a. v \<noteq> Ref a"
  shows "isError P s v = (Inr False, s)"
    and "isNormalizedError P s v = (Inr False, s)"
    and "isPromise P s v = (Inr False, s)"
proof -
  have "\<not> (truthy v \<and> typeof s v = ''object'')"
    using assms by (cases v) (simp_all add: truthy_def typeof_def)
  then show e: "isError P s v = (Inr False, s)" and "isPromise P s v = (Inr False, s)"
    by (auto simp: isError_def isPromise_def andalso_simps)
  show "isNormalizedError P s v = (Inr False, s)"
    by (simp add: isNormalizedError_def e andalso_simps)
qed

lemma isError_plain:
  assumes "plain s v"
  shows "isError P s v =
           (Inr (\<exists>a m t. v = Ref a \<and> \<not> callable (objs s a) \<and>
                   lookup (objs s a) ''message'' = Some (Data (Str m)) \<and>
                   lookup (objs s a) ''stack'' = Some (Data (Str t))), s)"
proof (cases "\<exists>a. v = Ref a")
  case False
  then show ?thesis
    using guards_primitive(1)[of v P s] by auto
next
  case True
  then obtain a where v: "v = Ref a" by blast
  have l: "lookup (objs s a) key \<noteq> Some Accessor" for key
    using plain_lookup assms v by simp
  show ?thesis
    using plain_reads(1,2)[of s a P] assms l[of "''message''"] l[of "''stack''"] unfolding v
    by (auto simp: isError_def andalso_simps and_then_simps truthy_def typeof_string_iff
          has_field_def field_def typeof_Ref
        split: option.splits property.splits)
qed



lemma isNormalizedError_plain:
  assumes "plain s v"
  shows "isNormalizedError P s v =
           (Inr (\<exists>a m t x. v = Ref a \<and> \<not> callable (objs s a) \<and>
                   lookup (objs s a) ''message'' = Some (Data (Str m)) \<and>
                   lookup (objs s a) ''stack'' = Some (Data (Str t)) \<and>
                   lookup (objs s a) ''originalValue'' = Some x), s)"
proof (cases "\<exists>a. v = Ref a")
  case False
  then show ?thesis
    using guards_primitive(2)[of v P s] by auto
next
  case True
  then obtain a where v: "v = Ref a" by blast
  show ?thesis
    using plain_reads(1,2)[of s a P] assms unfolding v
    by (auto simp: isNormalizedError_def isError_plain andalso_simps and_then_simps
          has_field_def field_def)
qed


lemma NormalizedError_instance_alloc:
  assumes "alloc s (NormalizedError_instance m k ov) = (n, s')"
  shows "n = Ref (next_addr s)"
    and "next_addr s' = Suc (next_addr s)"
    and "console s' = console s"
    and "plain s' n"
    and "field s' n ''message'' = m"
    and "field s' n ''stack'' = k"
    and "field s' n ''originalValue'' = ov"
    and "field s' n ''then'' = Undefined"
    and "has_field s' ''originalValue'' n"
    and "\<not> callable (objs s' (next_addr s))"
    and "error_instance (objs s' (next_addr s))"
    and "lookup (objs s' (next_addr s)) ''message'' = Some (Data m)"
    and "lookup (objs s' (next_addr s)) ''stack'' = Some (Data k)"
    and "lookup (objs s' (next_addr s)) ''originalValue'' = Some (Data ov)"
  using assms
  by (auto simp: alloc_def NormalizedError_instance_def plain_def field_def has_field_def
      lookup_def Error_prototype_def)

lemma Error_message_text: "Error_message P s (Str m) = (Inr (Str m), s)"
  by (simp add: Error_message_def ToString_def String_js_def and_then_simps)

lemma NormalizedError_plain:
  assumes "plain s (Ref a)" and "field s (Ref a) ''message'' = Str m"
  shows "NormalizedError P s (Ref a) ov =
           (Inr (Ref (next_addr s)),
            snd (alloc s (NormalizedError_instance (Str m)
                   (coalesce (field s (Ref a) ''stack'') (Str m))
                   (coalesce ov (Ref a)))))"
  using plain_reads(1)[OF assms(1), of P] assms(2)
  by (simp add: NormalizedError_def Error_message_text and_then_simps alloc_def)

lemma new_Error_result:
  assumes "new_Error P s msg = (e, s')"
  shows "e = Ref (next_addr s)"
    and "next_addr s' = Suc (next_addr s)"
    and "console s' = console s"
    and "plain s' e"
    and "field s' e ''message'' = Str msg"
    and "field s' e ''stack'' = (case capture_stack P msg of Some t \<Rightarrow> Str t | None \<Rightarrow> Undefined)"
    and "field s' e ''name'' = Str ''Error''"
    and "error_instance (objs s' (next_addr s))"
  using assms
  by (auto simp: new_Error_def alloc_def field_def lookup_def plain_def
      Error_prototype_def split: option.splits)

text \<open>
  A NormalizedError built from a synthetic error: nothing in it can raise, its message
  is the error's and its stack is a text.
\<close>

lemma synthetic_result:
  assumes e: "new_Error P s msg = (e, s1)"
  shows "\<exists>t s2. NormalizedError P s1 e v = (Inr (Ref (next_addr s1)), s2) \<and>
           alloc s1 (NormalizedError_instance (Str msg) (Str t) (coalesce v e))
             = (Ref (next_addr s1), s2)"
proof -
  obtain a where a: "e = Ref a"
    using new_Error_result(1)[OF e] by blast
  have st: "\<exists>t. coalesce (field s1 e ''stack'') (field s1 e ''message'') = Str t"
    using new_Error_result(5,6)[OF e]
    by (cases "capture_stack P msg") (simp_all add: coalesce_def nullish_def)
  then obtain t where t: "coalesce (field s1 e ''stack'') (field s1 e ''message'') = Str t"
    by blast
  have "NormalizedError P s1 e v =
          (Inr (Ref (next_addr s1)),
           snd (alloc s1 (NormalizedError_instance (Str msg) (Str t) (coalesce v e))))"
    using NormalizedError_plain[where s = s1 and a = a and P = P and ov = v] new_Error_result(4,5)[OF e] t a by simp
  then show ?thesis
    by (auto simp: alloc_def)
qed

text \<open>
  The part of \<^verbatim>\<open>toNormalizedError\<close> after \<^verbatim>\<open>isError\<close> has returned false: the text of the
  value or the fallback goes into a synthetic error, and the constructor returns.
\<close>

lemma not_error_like_result:
  assumes "isError P s v = (Inr False, s1)"
  shows "\<exists>sx msg e sy t s'.
           new_Error P sx msg = (e, sy) \<and>
           toNormalizedError P s v = (Inr (Ref (next_addr sy)), s') \<and>
           alloc sy (NormalizedError_instance (Str msg) (Str t) (coalesce v e))
             = (Ref (next_addr sy), s') \<and>
           (case value_text P s1 v of
              (Inr tx, sz) \<Rightarrow> sx = sz \<and> msg = ''Unexpected value thrown: '' @ tx
            | (Inl _, sz) \<Rightarrow> sx = sz \<and>
                msg = ''Unexpected value thrown: non-stringifiable object'')"
proof (cases "value_text P s1 v")
  case (Pair res sz)
  show ?thesis
  proof (cases res)
    case (Inr tx)
    let ?msg = "''Unexpected value thrown: '' @ tx"
    obtain e sy where e: "new_Error P sz ?msg = (e, sy)"
      by (cases "new_Error P sz ?msg")
    obtain t s' where n: "NormalizedError P sy e v = (Inr (Ref (next_addr sy)), s')"
      and al: "alloc sy (NormalizedError_instance (Str ?msg) (Str t) (coalesce v e))
                 = (Ref (next_addr sy), s')"
      using synthetic_result[OF e] by blast
    have "toNormalizedError P s v = (Inr (Ref (next_addr sy)), s')"
      using assms Pair Inr e n
      by (simp add: toNormalizedError_def unexpected_value_def and_then_simps)
    then show ?thesis
      using e al Pair Inr by fastforce
  next
    case (Inl thrown)
    let ?msg = "''Unexpected value thrown: non-stringifiable object''"
    obtain e sy where e: "new_Error P sz ?msg = (e, sy)"
      by (cases "new_Error P sz ?msg")
    obtain t s' where n: "NormalizedError P sy e v = (Inr (Ref (next_addr sy)), s')"
      and al: "alloc sy (NormalizedError_instance (Str ?msg) (Str t) (coalesce v e))
                 = (Ref (next_addr sy), s')"
      using synthetic_result[OF e] by blast
    have "toNormalizedError P s v = (Inr (Ref (next_addr sy)), s')"
      using assms Pair Inl e n
      by (simp add: toNormalizedError_def unexpected_value_def and_then_simps)
    then show ?thesis
      using e al Pair Inl by fastforce
  qed
qed



lemma isNormalizedError_instance:
  assumes "alloc s (NormalizedError_instance (Str m) (Str k) ov) = (n, s')"
  shows "isNormalizedError P s' n = (Inr True, s')"
    and "instanceof_Error P s' n = (Inr True, s')"
proof -
  note f = NormalizedError_instance_alloc[OF assms]
  show "isNormalizedError P s' n = (Inr True, s')"
    using isNormalizedError_plain[OF f(4), of P] f(1,10,12,13,14) by simp
  show "instanceof_Error P s' n = (Inr True, s')"
    using plain_reads(3)[of s' "next_addr s" P] f(1,4,11) by simp
qed

text \<open>What \<^verbatim>\<open>toNormalizedError\<close> does with a plain value.\<close>

lemma toNormalizedError_plain:
  assumes "plain s v"
  shows "\<exists>m k ov sx s'.
           toNormalizedError P s v = (Inr (Ref (next_addr sx)), s') \<and>
           alloc sx (NormalizedError_instance (Str m) (Str k) ov) = (Ref (next_addr sx), s')"
proof (cases "isError P s v = (Inr True, s)")
  case True
  then obtain a m t where v: "v = Ref a"
    and l: "lookup (objs s a) ''message'' = Some (Data (Str m))"
      "lookup (objs s a) ''stack'' = Some (Data (Str t))"
    using isError_plain[OF assms, of P] by auto
  have f: "field s v ''message'' = Str m" "field s v ''stack'' = Str t"
    using l v by (simp_all add: field_def)
  have "toNormalizedError P s v =
          (Inr (Ref (next_addr s)),
           snd (alloc s (NormalizedError_instance (Str m) (Str t) v)))"
    using True NormalizedError_plain[where s = s and a = a and P = P and ov = Undefined] assms v f
    by (simp add: toNormalizedError_def and_then_simps coalesce_def nullish_def)
  then show ?thesis
    by (auto simp: alloc_def)
next
  case False
  then have "isError P s v = (Inr False, s)"
    using isError_plain[OF assms, of P] by auto
  from not_error_like_result[OF this] show ?thesis
    by blast
qed

lemma example_objs:
  "objs example_store 0 = plain_object [''message'' \<mapsto> Data (Str ''m''), ''stack'' \<mapsto> Data (Str [])]"
  "objs example_store 1 = plain_object [''message'' \<mapsto> Data (Str ''m'')]"
  "objs example_store (Suc 0) = plain_object [''message'' \<mapsto> Data (Str ''m'')]"
  "objs example_store 2 = error_object [''message'' \<mapsto> Data (Str ''x''),
                            ''stack'' \<mapsto> Data (Str ''Error: x'')]"
  "objs example_store 3 = plain_object [''self'' \<mapsto> Data (Ref 3)]"
  "objs example_store 4 = function_object None"
  "objs example_store 5 = plain_object [''then'' \<mapsto> Data (Ref 4), ''catch'' \<mapsto> Data (Ref 4)]"
  "objs example_store 6 = function_object (Some Promise_prototype_then)"
  "objs example_store 7 = function_object (Some Promise_prototype_catch)"
  "objs example_store 8 = promise_object (Rejected (Str ''boom''))"
  "objs example_store 9 = promise_object (Fulfilled (Num (Finite 7)))"
  "objs example_store 10 = error_object [''name'' \<mapsto> Data Undefined, ''message'' \<mapsto> Data Null,
                             ''stack'' \<mapsto> Data (Str ''Error: x'')]"
  "objs example_store 11 = plain_object [''message'' \<mapsto> Data (Str ''m''), ''stack'' \<mapsto> Data (Str ''s''),
                             ''originalValue'' \<mapsto> Data (Num (Finite 1))]"
  "objs example_store 12 = plain_object [''a'' \<mapsto> Data (Num (Finite 1))]"
  "objs example_store 13 = plain_object [''toString'' \<mapsto> Data Undefined]"
  "objs example_store 14 = plain_object [''message'' \<mapsto> Accessor, ''stack'' \<mapsto> Data (Str ''s'')]"
  "objs example_store 15 = plain_object [''message'' \<mapsto> Data (Str ''m''),
                             ''originalValue'' \<mapsto> Data (Num (Finite 1)),
                             ''reads'' \<mapsto> Data (Num (Finite 0)),
                             ''stack'' \<mapsto> Accessor]"
  "next_addr example_store = 16"
  "console example_store = []"
  by (simp_all add: example_store_def)

lemmas example_simps =
  example_objs plain_object_def error_object_def function_object_def promise_object_def
  example_platform_def lookup_def field_def has_field_def typeof_def truthy_def
  Error_prototype_def raise_TypeError_def alloc_def

lemma example_plain:
  "plain example_store (Ref 0)" "plain example_store (Ref 1)" "plain example_store (Ref 2)"
  "plain example_store (Ref 3)" "plain example_store (Ref 4)" "plain example_store (Ref 5)"
  "plain example_store (Ref 8)" "plain example_store (Ref 9)" "plain example_store (Ref 10)"
  "plain example_store (Ref 11)" "plain example_store (Ref 12)" "plain example_store (Ref 13)"
  by (simp_all add: plain_def example_simps)

subsection \<open>What toNormalizedError raises\<close>





subsection \<open>Error-like values\<close>

lemma toNormalizedError_keeps_error:
  assumes p: "plain s e" and i: "isError P s e = (Inr True, s)"
  shows "\<exists>n s'. toNormalizedError P s e = (Inr n, s') \<and>
           NormalizedError P s e Undefined = (Inr n, s') \<and>
           n = Ref (next_addr s) \<and> plain s' n \<and>
           isNormalizedError P s' n = (Inr True, s') \<and>
           field s' n ''originalValue'' = e \<and>
           field s' n ''message'' = field s e ''message'' \<and>
           field s' n ''stack'' = field s e ''stack''"
proof -
  obtain a m t where v: "e = Ref a"
    and l: "lookup (objs s a) ''message'' = Some (Data (Str m))"
      "lookup (objs s a) ''stack'' = Some (Data (Str t))"
    using isError_plain[OF p, of P] i by auto
  have f: "field s e ''message'' = Str m" "field s e ''stack'' = Str t"
    using l v by (simp_all add: field_def)
  let ?s' = "snd (alloc s (NormalizedError_instance (Str m) (Str t) e))"
  have c: "NormalizedError P s e Undefined = (Inr (Ref (next_addr s)), ?s')"
    using NormalizedError_plain[where s = s and a = a and P = P and ov = Undefined] p v f
    by (simp add: coalesce_def nullish_def)
  have al: "alloc s (NormalizedError_instance (Str m) (Str t) e) = (Ref (next_addr s), ?s')"
    by (simp add: alloc_def)
  have "toNormalizedError P s e = (Inr (Ref (next_addr s)), ?s')"
    using i c by (simp add: toNormalizedError_def and_then_simps)
  then show ?thesis
    using c f NormalizedError_instance_alloc(4,5,6,7)[OF al] isNormalizedError_instance(1)[OF al]
    by simp
qed



subsection \<open>Values that are not error-like\<close>

text \<open>
  When \<^verbatim>\<open>isError\<close> returns false and the text of the value is \<open>tx\<close>, the message is the
  prefix followed by \<open>tx\<close>, and \<^verbatim>\<open>originalValue\<close> is \<^verbatim>\<open>value ?? error\<close> with \<^verbatim>\<open>error\<close> the
  synthetic error: the value itself unless it is \<^verbatim>\<open>null\<close> or \<^verbatim>\<open>undefined\<close>.
\<close>

lemma toNormalizedError_unexpected:
  assumes "isError P s v = (Inr False, s1)" and "value_text P s1 v = (Inr tx, sx)"
  shows "\<exists>n s'. toNormalizedError P s v = (Inr n, s') \<and>
           field s' n ''message'' = Str (''Unexpected value thrown: '' @ tx) \<and>
           field s' n ''originalValue'' = coalesce v (Ref (next_addr sx))"
proof -
  obtain sx' msg e sy t s2 where e: "new_Error P sx' msg = (e, sy)"
    and r: "toNormalizedError P s v = (Inr (Ref (next_addr sy)), s2)"
    and a: "alloc sy (NormalizedError_instance (Str msg) (Str t) (coalesce v e))
              = (Ref (next_addr sy), s2)"
    and c: "case value_text P s1 v of
              (Inr tx, sz) \<Rightarrow> sx' = sz \<and> msg = ''Unexpected value thrown: '' @ tx
            | (Inl _, sz) \<Rightarrow> sx' = sz \<and>
                msg = ''Unexpected value thrown: non-stringifiable object''"
    using not_error_like_result[OF assms(1)] by (elim meta_impE exE conjE) auto
  have "sx' = sx" "msg = ''Unexpected value thrown: '' @ tx"
    using c assms(2) by simp_all
  then show ?thesis
    using r NormalizedError_instance_alloc(5,7)[OF a] new_Error_result(1)[OF e] by simp
qed

lemma toNormalizedError_keeps_value:
  assumes "isError P s v = (Inr False, s1)" and "value_text P s1 v = (Inr tx, sx)"
    and "\<not> nullish v"
  shows "\<exists>n s'. toNormalizedError P s v = (Inr n, s') \<and>
           field s' n ''message'' = Str (''Unexpected value thrown: '' @ tx) \<and>
           field s' n ''originalValue'' = v"
  using toNormalizedError_unexpected[OF assms(1,2)] assms(3) by (simp add: coalesce_def)

text \<open>
  Claim C1, at the inputs \<^verbatim>\<open>null\<close> and \<^verbatim>\<open>undefined\<close>. The message is as the claim says
  (\<^verbatim>\<open>Unexpected value thrown: null\<close>, \<^verbatim>\<open>Unexpected value thrown: undefined\<close>), but
  \<^verbatim>\<open>originalValue\<close> is not the value thrown: \<^verbatim>\<open>originalValue ?? error\<close> in the constructor
  replaces it by the synthetic error, the object allocated first.
\<close>

theorem toNormalizedError_nullish_originalValue:
  "(\<exists>n s'. toNormalizedError P s Null = (Inr n, s') \<and>
      field s' n ''message'' = Str ''Unexpected value thrown: null'' \<and>
      field s' n ''originalValue'' = Ref (next_addr s) \<and>
      field s' n ''originalValue'' \<noteq> Null) \<and>
   (\<exists>n s'. toNormalizedError P s Undefined = (Inr n, s') \<and>
      field s' n ''message'' = Str ''Unexpected value thrown: undefined'' \<and>
      field s' n ''originalValue'' = Ref (next_addr s) \<and>
      field s' n ''originalValue'' \<noteq> Undefined)"
proof -
  have n: "isError P s Null = (Inr False, s)" "isError P s Undefined = (Inr False, s)"
    using guards_primitive(1)[of Null P s] guards_primitive(1)[of Undefined P s] by simp_all
  have t: "value_text P s Null = (Inr ''null'', s)" "value_text P s Undefined = (Inr ''undefined'', s)"
    by (simp_all add: value_text_def typeof_def JSON_stringify_def template_text_def String_js_def
        and_then_simps)
  show ?thesis
    using toNormalizedError_unexpected[OF n(1) t(1)] toNormalizedError_unexpected[OF n(2) t(2)]
    by (auto simp add: coalesce_def nullish_def)
qed

subsection \<open>The stack of a NormalizedError\<close>

text \<open>
  Claim C2, as stated, fails: the stack of a NormalizedError may be the empty text. The
  error-like object \<^verbatim>\<open>{message: "m", stack: ""}\<close> (address 0 of the example store) is
  normalized to the object at address 16, whose stack is the empty text it copied.
\<close>

theorem stack_empty_counterexample:
  "isError example_platform example_store (Ref 0) = (Inr True, example_store) \<and>
   fst (toNormalizedError example_platform example_store (Ref 0)) = Inr (Ref 16) \<and>
   field (snd (toNormalizedError example_platform example_store (Ref 0))) (Ref 16) ''stack''
     = Str []"
proof -
  have h: "isError example_platform example_store (Ref 0) = (Inr True, example_store)"
    using isError_plain[OF example_plain(1), of example_platform] by (simp add: example_simps)
  obtain n s' where r: "toNormalizedError example_platform example_store (Ref 0) = (Inr n, s')"
    and n: "n = Ref (next_addr example_store)"
    and f: "field s' n ''stack'' = field example_store (Ref 0) ''stack''"
    using toNormalizedError_keeps_error[OF example_plain(1) h] by blast
  show ?thesis
    using h r n f by (simp add: example_simps)
qed

text \<open>
  Claim C2, amended. The stack of a NormalizedError is always a text, empty or not. The
  constructor, given an \<^verbatim>\<open>Error\<close> with data properties (its message a text), copies the
  error's stack when that is a text, and takes the message when the stack is
  \<^verbatim>\<open>undefined\<close> or \<^verbatim>\<open>null\<close>; and what \<^verbatim>\<open>toNormalizedError\<close> returns for a plain value has a
  text as its stack.
\<close>

theorem NormalizedError_stack_text:
  "(plain s err \<and> field s err ''message'' = Str m \<longrightarrow>
      (\<exists>n s'. NormalizedError P s err ov = (Inr n, s') \<and>
         (field s err ''stack'' = Str t \<longrightarrow> field s' n ''stack'' = Str t) \<and>
         (nullish (field s err ''stack'') \<longrightarrow> field s' n ''stack'' = Str m))) \<and>
   (plain s v \<longrightarrow>
      (\<exists>n2 s2 t2. toNormalizedError P s v = (Inr n2, s2) \<and> field s2 n2 ''stack'' = Str t2))"
proof (intro conjI impI)
  assume a: "plain s err \<and> field s err ''message'' = Str m"
  then obtain b where b: "err = Ref b"
    by (cases err) (simp_all add: field_def)
  let ?k = "coalesce (field s err ''stack'') (Str m)"
  let ?s' = "snd (alloc s (NormalizedError_instance (Str m) ?k (coalesce ov err)))"
  have c: "NormalizedError P s err ov = (Inr (Ref (next_addr s)), ?s')"
    using NormalizedError_plain[where s = s and a = b and P = P and ov = ov] a b by simp
  have al: "alloc s (NormalizedError_instance (Str m) ?k (coalesce ov err))
              = (Ref (next_addr s), ?s')"
    by (simp add: alloc_def)
  have "field ?s' (Ref (next_addr s)) ''stack'' = ?k"
    using NormalizedError_instance_alloc(6)[OF al] .
  then show "\<exists>n s'. NormalizedError P s err ov = (Inr n, s') \<and>
         (field s err ''stack'' = Str t \<longrightarrow> field s' n ''stack'' = Str t) \<and>
         (nullish (field s err ''stack'') \<longrightarrow> field s' n ''stack'' = Str m)"
    using c by (auto simp: coalesce_def nullish_def)
next
  assume "plain s v"
  then obtain m k ov sx s'
    where r: "toNormalizedError P s v = (Inr (Ref (next_addr sx)), s')"
      and a: "alloc sx (NormalizedError_instance (Str m) (Str k) ov) = (Ref (next_addr sx), s')"
    using toNormalizedError_plain[of s v P] by blast
  show "\<exists>n2 s2 t2. toNormalizedError P s v = (Inr n2, s2) \<and> field s2 n2 ''stack'' = Str t2"
    using r NormalizedError_instance_alloc(6)[OF a] by blast
qed

text \<open>
  Claim C2, amended, at \<^verbatim>\<open>new Error("x")\<close> (address 2), whose stack is copied, at
  \<^verbatim>\<open>{message: "m"}\<close> (address 1), which has no stack, so that the message is taken, and
  at \<^verbatim>\<open>toNormalizedError({message: "m", stack: ""})\<close> (address 0).
\<close>

theorem NormalizedError_stack_text_witness:
  "(\<exists>n s'. NormalizedError example_platform example_store (Ref 2) Undefined = (Inr n, s') \<and>
      field s' n ''stack'' = Str ''Error: x'') \<and>
   (\<exists>n s'. NormalizedError example_platform example_store (Ref 1) Undefined = (Inr n, s') \<and>
      field s' n ''stack'' = Str ''m'') \<and>
   (\<exists>n s' t. toNormalizedError example_platform example_store (Ref 0) = (Inr n, s') \<and>
      field s' n ''stack'' = Str t)"
proof -
  have f: "field example_store (Ref 2) ''message'' = Str ''x''"
    "field example_store (Ref 2) ''stack'' = Str ''Error: x''"
    "field example_store (Ref 1) ''message'' = Str ''m''"
    "nullish (field example_store (Ref 1) ''stack'')"
    by (simp_all add: example_simps nullish_def)
  show ?thesis
    using f example_plain(1,2,3)
      NormalizedError_stack_text[where s = example_store and err = "Ref 2" and m = "''x''"
        and t = "''Error: x''" and P = example_platform and ov = Undefined and v = "Ref 0"]
      NormalizedError_stack_text[where s = example_store and err = "Ref 1" and m = "''m''"
        and t = "''m''" and P = example_platform and ov = Undefined and v = Null]
    by blast
qed

subsection \<open>noThrow\<close>

text \<open>
  Claim C4. When the action returns a value that is not promise-like, \<^verbatim>\<open>noThrow\<close> returns
  that value; when the action throws, \<^verbatim>\<open>noThrow\<close> returns what \<^verbatim>\<open>toNormalizedError\<close> makes
  of the thrown value.
\<close>

theorem noThrow_synchronous:
  "(action s = (Inr result, s1) \<and> isPromise P s1 result = (Inr False, s2) \<longrightarrow>
      noThrow P s action = (Inr result, s2)) \<and>
   (action s = (Inl thrown, s1) \<longrightarrow>
      noThrow P s action = toNormalizedError P s1 thrown)"
  by (simp add: noThrow_def noThrow_try_def and_then_simps)

text \<open>
  Claim C4 at \<^verbatim>\<open>noThrow(() => 42)\<close>, which returns 42, and at
  \<^verbatim>\<open>noThrow(() => { throw new Error("x") })\<close>, which returns a NormalizedError (the object at
  address 17) whose message is \<^verbatim>\<open>x\<close>.
\<close>

theorem noThrow_synchronous_witness:
  "noThrow example_platform example_store (returning (Num (Finite 42)))
     = (Inr (Num (Finite 42)), example_store) \<and>
   (\<exists>s'. noThrow example_platform example_store (throwing_new_Error example_platform ''x'')
            = (Inr (Ref 17), s') \<and>
         isNormalizedError example_platform s' (Ref 17) = (Inr True, s') \<and>
         field s' (Ref 17) ''message'' = Str ''x'')"
proof -
  let ?P = example_platform
  let ?s1 = "snd (new_Error ?P example_store ''x'')"
  have a1: "returning (Num (Finite 42)) example_store = (Inr (Num (Finite 42)), example_store)"
    by (simp add: returning_def)
  have np: "isPromise ?P example_store (Num (Finite 42)) = (Inr False, example_store)"
    using guards_primitive(3)[of "Num (Finite 42)"] by simp
  have e0: "fst (new_Error ?P example_store ''x'') = Ref 16"
    by (simp add: new_Error_def alloc_def example_simps)
  then have e: "new_Error ?P example_store ''x'' = (Ref 16, ?s1)"
    by (metis prod.collapse)
  have a2: "throwing_new_Error ?P ''x'' example_store = (Inl (Ref 16), ?s1)"
    using e0 by (simp add: throwing_new_Error_def case_prod_beta)
  have p: "plain ?s1 (Ref 16)" and m: "field ?s1 (Ref 16) ''message'' = Str ''x''"
    and k: "field ?s1 (Ref 16) ''stack'' = Str ''Error: x''"
    and nx: "next_addr ?s1 = 17"
    using new_Error_result(2,4,5,6)[OF e] by (simp_all add: example_simps)
  have l: "lookup (objs ?s1 16) ''message'' = Some (Data (Str ''x''))"
    "lookup (objs ?s1 16) ''stack'' = Some (Data (Str ''Error: x''))"
    "\<not> callable (objs ?s1 16)"
    by (simp_all add: new_Error_def example_simps)
  have err: "isError ?P ?s1 (Ref 16) = (Inr True, ?s1)"
    using isError_plain[OF p, of ?P] l by simp
  obtain n s' where r: "toNormalizedError ?P ?s1 (Ref 16) = (Inr n, s')"
    and n: "n = Ref (next_addr ?s1)"
    and v: "isNormalizedError ?P s' n = (Inr True, s')"
    and f: "field s' n ''message'' = field ?s1 (Ref 16) ''message''"
    using toNormalizedError_keeps_error[OF p err] by blast
  from noThrow_synchronous[where action = "returning (Num (Finite 42))" and s = example_store
      and result = "Num (Finite 42)" and ?s1.0 = example_store and ?s2.0 = example_store
      and P = ?P]
    noThrow_synchronous[where action = "throwing_new_Error ?P ''x''" and s = example_store
      and thrown = "Ref 16" and ?s1.0 = ?s1 and P = ?P]
  show ?thesis
    using a1 np a2 r n v f m nx by simp
qed









subsection \<open>The type guards\<close>




text \<open>
  Claim C9, as stated, fails: \<^verbatim>\<open>isNormalizedError\<close> reads \<^verbatim>\<open>value.stack\<close> a second time,
  after \<^verbatim>\<open>isError\<close> has read it, and a getter need not answer twice alike. For the object
  \<^verbatim>\<open>{message: "m", originalValue: 1, reads: 0,
    get stack() { return this.reads++ === 0 ? "s" : undefined }}\<close>
  (address 15 of the example store) \<^verbatim>\<open>isError\<close> returns true, the object has an
  \<^verbatim>\<open>originalValue\<close>, before and after that call, and \<^verbatim>\<open>isNormalizedError\<close> returns false:
  the test \<^verbatim>\<open>value.stack !== undefined\<close> decides.
\<close>

theorem isNormalizedError_getter_counterexample:
  "isError example_platform example_store (Ref 15)
     = (Inr True, count_read example_store 15) \<and>
   has_property example_platform example_store ''originalValue'' (Ref 15)
     = (Inr True, example_store) \<and>
   has_property example_platform (count_read example_store 15) ''originalValue'' (Ref 15)
     = (Inr True, count_read example_store 15) \<and>
   isNormalizedError example_platform example_store (Ref 15)
     = (Inr False, count_read example_store 15)"
proof -
  have e: "isError example_platform example_store (Ref 15)
             = (Inr True, count_read example_store 15)"
    by (simp add: isError_def andalso_simps and_then_simps has_property_def get_property_def
        example_simps)
  have h: "has_property example_platform example_store ''originalValue'' (Ref 15)
             = (Inr True, example_store)"
    by (simp add: has_property_def example_simps)
  have h1: "has_property example_platform (count_read example_store 15) ''originalValue'' (Ref 15)
             = (Inr True, count_read example_store 15)"
    by (simp add: has_property_def count_read_def example_simps)
  have g: "get_property example_platform (count_read example_store 15) (Ref 15) ''stack''
             = (Inr Undefined, count_read example_store 15)"
    by (simp add: get_property_def count_read_def example_simps)
  have "isNormalizedError example_platform example_store (Ref 15)
          = (Inr False, count_read example_store 15)"
    by (simp add: isNormalizedError_def e h1 g andalso_simps and_then_simps)
  with e h h1 show ?thesis
    by simp
qed

lemma isNormalizedError_isError:
  assumes "isNormalizedError P s v = (Inr True, s')"
  shows "\<exists>s1. isError P s v = (Inr True, s1)"
proof (cases "isError P s v")
  case (Pair r s1)
  show ?thesis
  proof (cases r)
    case (Inl t)
    then show ?thesis
      using assms Pair by (simp add: isNormalizedError_def andalso_simps)
  next
    case (Inr b)
    then show ?thesis
      using assms Pair by (cases b) (simp_all add: isNormalizedError_def andalso_simps)
  qed
qed

text \<open>
  Claim C9, amended. For every value, if \<^verbatim>\<open>isNormalizedError\<close> returns true then \<^verbatim>\<open>isError\<close>
  returns true. For a primitive and for an object with data properties only, the
  conjunct \<^verbatim>\<open>value.stack !== undefined\<close> adds nothing: when \<^verbatim>\<open>isError\<close> returns true the
  stack read is not \<^verbatim>\<open>undefined\<close>, and \<^verbatim>\<open>isNormalizedError\<close> returns what
  \<^verbatim>\<open>"originalValue" in value\<close> returns; when \<^verbatim>\<open>isError\<close> returns false so does
  \<^verbatim>\<open>isNormalizedError\<close>.
\<close>

theorem isNormalizedError_redundant_on_data:
  "(isNormalizedError P s v = (Inr True, s') \<longrightarrow> (\<exists>s1. isError P s v = (Inr True, s1))) \<and>
   (plain s v \<longrightarrow>
      (\<exists>b. isError P s v = (Inr b, s) \<and>
         (b \<longrightarrow>
            (\<exists>x h. get_property P s v ''stack'' = (Inr x, s) \<and> x \<noteq> Undefined \<and>
               has_property P s ''originalValue'' v = (Inr h, s) \<and>
               isNormalizedError P s v = (Inr h, s))) \<and>
         (\<not> b \<longrightarrow> isNormalizedError P s v = (Inr False, s))))"
proof (intro conjI impI)
  assume "isNormalizedError P s v = (Inr True, s')"
  then show "\<exists>s1. isError P s v = (Inr True, s1)"
    by (rule isNormalizedError_isError)
next
  assume p: "plain s v"
  let ?b = "\<exists>a m t. v = Ref a \<and> \<not> callable (objs s a) \<and>
                lookup (objs s a) ''message'' = Some (Data (Str m)) \<and>
                lookup (objs s a) ''stack'' = Some (Data (Str t))"
  have e: "isError P s v = (Inr ?b, s)"
    by (rule isError_plain[OF p])
  have t: "\<exists>x h. get_property P s v ''stack'' = (Inr x, s) \<and> x \<noteq> Undefined \<and>
               has_property P s ''originalValue'' v = (Inr h, s) \<and>
               isNormalizedError P s v = (Inr h, s)" if b: ?b
  proof -
    obtain a m t where v: "v = Ref a" and k: "lookup (objs s a) ''stack'' = Some (Data (Str t))"
      using b by blast
    have pa: "plain s (Ref a)"
      using p v by simp
    have g: "get_property P s v ''stack'' = (Inr (Str t), s)"
      using plain_reads(1)[OF pa, of P "''stack''"] k v by (simp add: field_def)
    have h: "has_property P s ''originalValue'' v = (Inr (has_field s ''originalValue'' v), s)"
      using plain_reads(2)[OF pa, of P "''originalValue''"] v by simp
    have "isNormalizedError P s v = (Inr (has_field s ''originalValue'' v), s)"
      using b by (simp add: isNormalizedError_def e g h andalso_simps and_then_simps)
    with g h show ?thesis
      by simp
  qed
  have f: "isNormalizedError P s v = (Inr False, s)" if "\<not> ?b"
    using that by (auto simp: isNormalizedError_def e andalso_simps)
  show "\<exists>b. isError P s v = (Inr b, s) \<and>
         (b \<longrightarrow>
            (\<exists>x h. get_property P s v ''stack'' = (Inr x, s) \<and> x \<noteq> Undefined \<and>
               has_property P s ''originalValue'' v = (Inr h, s) \<and>
               isNormalizedError P s v = (Inr h, s))) \<and>
         (\<not> b \<longrightarrow> isNormalizedError P s v = (Inr False, s))"
    using e t f by blast
qed

text \<open>
  Claim C9, amended, on the example store: the object at address 11 passes both guards
  and has an \<^verbatim>\<open>originalValue\<close>; the one at address 0 is error-like, has none and is no
  normalized error; the one at address 1 is not error-like and no normalized error.
\<close>

theorem isNormalizedError_redundant_on_data_witness:
  "isNormalizedError example_platform example_store (Ref 11) = (Inr True, example_store) \<and>
   (\<exists>s1. isError example_platform example_store (Ref 11) = (Inr True, s1)) \<and>
   isError example_platform example_store (Ref 0) = (Inr True, example_store) \<and>
   has_property example_platform example_store ''originalValue'' (Ref 0)
     = (Inr False, example_store) \<and>
   isNormalizedError example_platform example_store (Ref 0) = (Inr False, example_store) \<and>
   isError example_platform example_store (Ref 1) = (Inr False, example_store) \<and>
   isNormalizedError example_platform example_store (Ref 1) = (Inr False, example_store)"
proof -
  let ?P = example_platform
  note t = isNormalizedError_redundant_on_data[where P = ?P and s = example_store]
  have e: "isError ?P example_store (Ref 11) = (Inr True, example_store)"
    "isError ?P example_store (Ref 0) = (Inr True, example_store)"
    "isError ?P example_store (Ref 1) = (Inr False, example_store)"
    using isError_plain[OF example_plain(10), of ?P] isError_plain[OF example_plain(1), of ?P]
      isError_plain[OF example_plain(2), of ?P]
    by (simp_all add: example_simps)
  have h: "has_property ?P example_store ''originalValue'' (Ref 11) = (Inr True, example_store)"
    "has_property ?P example_store ''originalValue'' (Ref 0) = (Inr False, example_store)"
    by (simp_all add: has_property_def example_simps)
  have n11: "isNormalizedError ?P example_store (Ref 11) = (Inr True, example_store)"
    using t[of "Ref 11", THEN conjunct2] example_plain(10) e(1) h(1) by auto
  have i11: "\<exists>s1. isError ?P example_store (Ref 11) = (Inr True, s1)"
    using t[of "Ref 11" example_store, THEN conjunct1] n11 by blast
  have n0: "isNormalizedError ?P example_store (Ref 0) = (Inr False, example_store)"
    using t[of "Ref 0", THEN conjunct2] example_plain(1) e(2) h(2) by auto
  have n1: "isNormalizedError ?P example_store (Ref 1) = (Inr False, example_store)"
    using t[of "Ref 1", THEN conjunct2] example_plain(2) e(3) by auto
  from n11 i11 e n0 h n1 show ?thesis
    by blast
qed

subsection \<open>logError\<close>

lemma logError_reads:
  assumes "default_extraInfo s extraInfo = (x, s0)"
    and "errorObject_of P s0 err = (Inr e, s1)"
    and "get_property P s1 e ''name'' = (Inr n, s2)"
    and "get_property P s2 e ''message'' = (Inr m, s3)"
    and "get_property P s3 e ''stack'' = (Inr k, s4)"
  shows "logError P s err ctx extraInfo =
           (Inr Undefined,
            console_error s4
              \<lparr>log_timestamp = current_time P,
               log_context = default_context ctx,
               log_error =
                 \<lparr>info_name = coalesce n (Str ''No name available''),
                  info_message = coalesce m (Str ''No message available''),
                  info_stack = coalesce k (Str ''No stack trace available'')\<rparr>,
               log_extraInfo = x\<rparr>)"
  using assms by (simp add: logError_def Let_def and_then_simps)

lemma logError_of_errorObject:
  assumes "default_extraInfo s extraInfo = (x, s0)"
    and "errorObject_of P s0 err = (Inr e, s1)"
    and "plain s1 e" and "e = Ref a"
  shows "logError P s err ctx extraInfo =
           (Inr Undefined,
            console_error s1
              \<lparr>log_timestamp = current_time P,
               log_context = default_context ctx,
               log_error =
                 \<lparr>info_name = coalesce (field s1 e ''name'') (Str ''No name available''),
                  info_message = coalesce (field s1 e ''message'') (Str ''No message available''),
                  info_stack = coalesce (field s1 e ''stack'') (Str ''No stack trace available'')\<rparr>,
               log_extraInfo = x\<rparr>)"
proof -
  have g: "get_property P s1 e key = (Inr (field s1 e key), s1)" for key
    using plain_reads(1)[of s1 a P key] assms(3,4) by simp
  show ?thesis
    by (rule logError_reads[OF assms(1,2) g g g])
qed

lemma errorObject_of_wrapped:
  assumes "instanceof_Error P s0 err = (Inr False, s1)" and "String_js P s1 err = (Inr tx, s2)"
  shows "\<exists>e s3. new_Error P s2 tx = (e, s3) \<and> errorObject_of P s0 err = (Inr e, s3)"
  using assms by (cases "new_Error P s2 tx") (simp add: errorObject_of_def and_then_simps)

lemma instanceof_Error_plain:
  assumes "plain s0 err" and "instanceof_Error P s0 err = (Inr True, s1)"
  shows "s1 = s0" and "\<exists>a. err = Ref a"
  using assms by (cases err; auto simp: instanceof_Error_def plain_def split: if_splits)+

lemma default_extraInfo_console:
  assumes "default_extraInfo s extraInfo = (x, s0)"
  shows "console s0 = console s"
  using assms by (auto simp: default_extraInfo_def alloc_def split: if_splits)

text \<open>
  Claim C8, as stated, fails: not every input has a plain-text conversion. The object
  \<^verbatim>\<open>{toString: undefined}\<close> (address 13 of the example store) is no \<^verbatim>\<open>Error\<close> instance, and
  \<^verbatim>\<open>String\<close> of it throws a TypeError (the object at address 16); \<^verbatim>\<open>logError\<close> throws the
  same and writes no record.
\<close>

theorem logError_raises_counterexample:
  "instanceof_Error example_platform example_store (Ref 13) = (Inr False, example_store) \<and>
   fst (String_js example_platform example_store (Ref 13)) = Inl (Ref 16) \<and>
   fst (logError example_platform example_store (Ref 13) (Str ''ctx'') (Ref 12)) = Inl (Ref 16) \<and>
   console (snd (logError example_platform example_store (Ref 13) (Str ''ctx'') (Ref 12))) = []"
  by (simp add: logError_def Let_def default_extraInfo_def default_context_def
      errorObject_of_def String_js_def instanceof_Error_def and_then_simps example_simps)

text \<open>
  Claim C8, amended. With \<open>x\<close> the \<^verbatim>\<open>extraInfo\<close> after its default and \<open>s0\<close> the store
  then: an \<^verbatim>\<open>Error\<close> instance is used as it is, and any other value whose text is \<open>tx\<close>
  is wrapped in a new \<^verbatim>\<open>Error\<close> with message \<open>tx\<close>. In both cases, once the reads of
  \<^verbatim>\<open>name\<close>, \<^verbatim>\<open>message\<close> and \<^verbatim>\<open>stack\<close> have returned, as they do for an instance with
  data properties and for a wrapped value, exactly one record is written, with the time,
  the context, the name, message and stack of the error object (each replaced by its
  fallback text when \<^verbatim>\<open>null\<close> or \<^verbatim>\<open>undefined\<close>) and \<open>x\<close>; for a wrapped value the name is
  \<^verbatim>\<open>Error\<close> and the message is \<open>tx\<close>. A context or \<^verbatim>\<open>extraInfo\<close> that is given is
  recorded as it is. When the value is no \<^verbatim>\<open>Error\<close> instance and its conversion to text
  throws, \<^verbatim>\<open>logError\<close> throws the same value.
\<close>

theorem logError_record:
  "default_extraInfo s extraInfo = (x, s0) \<longrightarrow>
     (instanceof_Error P s0 err = (Inr True, s1) \<and>
      get_property P s1 err ''name'' = (Inr n, s2) \<and>
      get_property P s2 err ''message'' = (Inr m, s3) \<and>
      get_property P s3 err ''stack'' = (Inr k, s4) \<longrightarrow>
        logError P s err ctx extraInfo =
          (Inr Undefined,
           s4\<lparr>console := console s4 @
              [\<lparr>log_timestamp = current_time P,
                log_context = default_context ctx,
                log_error =
                  \<lparr>info_name = coalesce n (Str ''No name available''),
                   info_message = coalesce m (Str ''No message available''),
                   info_stack = coalesce k (Str ''No stack trace available'')\<rparr>,
                log_extraInfo = x\<rparr>]\<rparr>)) \<and>
     (plain s0 err \<and> instanceof_Error P s0 err = (Inr True, s1) \<longrightarrow>
        logError P s err ctx extraInfo =
          (Inr Undefined,
           s0\<lparr>console := console s0 @
              [\<lparr>log_timestamp = current_time P,
                log_context = default_context ctx,
                log_error =
                  \<lparr>info_name = coalesce (field s0 err ''name'') (Str ''No name available''),
                   info_message = coalesce (field s0 err ''message'') (Str ''No message available''),
                   info_stack = coalesce (field s0 err ''stack'') (Str ''No stack trace available'')\<rparr>,
                log_extraInfo = x\<rparr>]\<rparr>)) \<and>
     (instanceof_Error P s0 err = (Inr False, s1) \<and> String_js P s1 err = (Inr tx, s2) \<longrightarrow>
        (\<exists>e s3. new_Error P s2 tx = (e, s3) \<and>
           logError P s err ctx extraInfo =
             (Inr Undefined,
              s3\<lparr>console := console s3 @
                 [\<lparr>log_timestamp = current_time P,
                   log_context = default_context ctx,
                   log_error =
                     \<lparr>info_name = Str ''Error'',
                      info_message = Str tx,
                      info_stack = (case capture_stack P tx of
                                      Some t \<Rightarrow> Str t
                                    | None \<Rightarrow> Str ''No stack trace available'')\<rparr>,
                   log_extraInfo = x\<rparr>]\<rparr>))) \<and>
     (instanceof_Error P s0 err = (Inr False, s1) \<and> String_js P s1 err = (Inl thrown, s2) \<longrightarrow>
        logError P s err ctx extraInfo = (Inl thrown, s2)) \<and>
     (extraInfo \<noteq> Undefined \<longrightarrow> x = extraInfo) \<and>
     (ctx \<noteq> Undefined \<longrightarrow> default_context ctx = ctx)"
proof (intro impI conjI)
  assume d: "default_extraInfo s extraInfo = (x, s0)"
  {
    assume a: "instanceof_Error P s0 err = (Inr True, s1) \<and>
      get_property P s1 err ''name'' = (Inr n, s2) \<and>
      get_property P s2 err ''message'' = (Inr m, s3) \<and>
      get_property P s3 err ''stack'' = (Inr k, s4)"
    then have o: "errorObject_of P s0 err = (Inr err, s1)"
      by (simp add: errorObject_of_def and_then_simps)
    from a have g: "get_property P s1 err ''name'' = (Inr n, s2)"
      "get_property P s2 err ''message'' = (Inr m, s3)"
      "get_property P s3 err ''stack'' = (Inr k, s4)"
      by simp_all
    from logError_reads[OF d o g]
    show "logError P s err ctx extraInfo =
          (Inr Undefined,
           s4\<lparr>console := console s4 @
              [\<lparr>log_timestamp = current_time P,
                log_context = default_context ctx,
                log_error =
                  \<lparr>info_name = coalesce n (Str ''No name available''),
                   info_message = coalesce m (Str ''No message available''),
                   info_stack = coalesce k (Str ''No stack trace available'')\<rparr>,
                log_extraInfo = x\<rparr>]\<rparr>)"
      by (simp add: console_error_def)
  next
    assume a: "plain s0 err \<and> instanceof_Error P s0 err = (Inr True, s1)"
    then have "s1 = s0" and "\<exists>a. err = Ref a"
      using instanceof_Error_plain[of s0 err P s1] by simp_all
    then obtain a where r: "err = Ref a"
      by blast
    from a \<open>s1 = s0\<close> have o: "errorObject_of P s0 err = (Inr err, s0)" and p: "plain s0 err"
      by (simp_all add: errorObject_of_def and_then_simps)
    from logError_of_errorObject[OF d o p r]
    show "logError P s err ctx extraInfo =
          (Inr Undefined,
           s0\<lparr>console := console s0 @
              [\<lparr>log_timestamp = current_time P,
                log_context = default_context ctx,
                log_error =
                  \<lparr>info_name = coalesce (field s0 err ''name'') (Str ''No name available''),
                   info_message = coalesce (field s0 err ''message'') (Str ''No message available''),
                   info_stack = coalesce (field s0 err ''stack'') (Str ''No stack trace available'')\<rparr>,
                log_extraInfo = x\<rparr>]\<rparr>)"
      by (simp add: console_error_def)
  next
    assume w: "instanceof_Error P s0 err = (Inr False, s1) \<and> String_js P s1 err = (Inr tx, s2)"
    then obtain e s3 where e: "new_Error P s2 tx = (e, s3)"
      and o: "errorObject_of P s0 err = (Inr e, s3)"
      using errorObject_of_wrapped[of P s0 err s1 tx s2] by blast
    have f: "coalesce (field s3 e ''name'') (Str ''No name available'') = Str ''Error''"
      "coalesce (field s3 e ''message'') (Str ''No message available'') = Str tx"
      "coalesce (field s3 e ''stack'') (Str ''No stack trace available'') =
         (case capture_stack P tx of Some t \<Rightarrow> Str t | None \<Rightarrow> Str ''No stack trace available'')"
      using new_Error_result(5,6,7)[OF e]
      by (simp_all add: coalesce_def nullish_def split: option.splits)
    from logError_of_errorObject[OF d o new_Error_result(4,1)[OF e], of ctx] e f
    show "\<exists>e s3. new_Error P s2 tx = (e, s3) \<and>
           logError P s err ctx extraInfo =
             (Inr Undefined,
              s3\<lparr>console := console s3 @
                 [\<lparr>log_timestamp = current_time P,
                   log_context = default_context ctx,
                   log_error =
                     \<lparr>info_name = Str ''Error'',
                      info_message = Str tx,
                      info_stack = (case capture_stack P tx of
                                      Some t \<Rightarrow> Str t
                                    | None \<Rightarrow> Str ''No stack trace available'')\<rparr>,
                   log_extraInfo = x\<rparr>]\<rparr>)"
      by (simp add: console_error_def)
  next
    assume "instanceof_Error P s0 err = (Inr False, s1) \<and> String_js P s1 err = (Inl thrown, s2)"
    then have "errorObject_of P s0 err = (Inl thrown, s2)"
      by (simp add: errorObject_of_def and_then_simps)
    with d show "logError P s err ctx extraInfo = (Inl thrown, s2)"
      by (simp add: logError_def Let_def and_then_simps)
  next
    assume "extraInfo \<noteq> Undefined"
    with d show "x = extraInfo"
      by (simp add: default_extraInfo_def)
  next
    assume "ctx \<noteq> Undefined"
    then show "default_context ctx = ctx"
      by (simp add: default_context_def)
  }
qed

text \<open>
  Claim C8, amended, at \<^verbatim>\<open>logError(new Error("x"), "ctx", {a: 1})\<close> (the error at address 2, the
  mapping at address 12), which writes one record with the context, the message \<^verbatim>\<open>x\<close>
  and the mapping; at \<^verbatim>\<open>logError("plain string")\<close>, whose record has the message
  \<^verbatim>\<open>plain string\<close> and the default context; and at the object of address 13, whose
  conversion to text throws.
\<close>

theorem logError_record_witness:
  "console (snd (logError example_platform example_store (Ref 2) (Str ''ctx'') (Ref 12))) =
     [\<lparr>log_timestamp = ''2024-01-01T00:00:00.000Z'',
       log_context = Str ''ctx'',
       log_error = \<lparr>info_name = Str ''Error'', info_message = Str ''x'',
                    info_stack = Str ''Error: x''\<rparr>,
       log_extraInfo = Ref 12\<rparr>] \<and>
   console (snd (logError example_platform example_store (Str ''plain string'') Undefined Undefined)) =
     [\<lparr>log_timestamp = ''2024-01-01T00:00:00.000Z'',
       log_context = Str ''General context'',
       log_error = \<lparr>info_name = Str ''Error'', info_message = Str ''plain string'',
                    info_stack = Str ''Error: plain string''\<rparr>,
       log_extraInfo = Ref 16\<rparr>] \<and>
   (\<exists>s2. logError example_platform example_store (Ref 13) (Str ''ctx'') (Ref 12)
            = (Inl (Ref 16), s2))"
proof -
  let ?P = example_platform
  let ?s0 = "snd (alloc example_store empty_object)"
  let ?r = "\<lparr>log_timestamp = ''2024-01-01T00:00:00.000Z'',
       log_context = Str ''ctx'',
       log_error = \<lparr>info_name = Str ''Error'', info_message = Str ''x'',
                    info_stack = Str ''Error: x''\<rparr>,
       log_extraInfo = Ref 12\<rparr>"
  have d1: "default_extraInfo example_store (Ref 12) = (Ref 12, example_store)"
    by (simp add: default_extraInfo_def)
  have i1: "instanceof_Error ?P example_store (Ref 2) = (Inr True, example_store)"
    by (simp add: instanceof_Error_def example_simps)
  have g1: "get_property ?P example_store (Ref 2) ''name'' = (Inr (Str ''Error''), example_store)"
    "get_property ?P example_store (Ref 2) ''message'' = (Inr (Str ''x''), example_store)"
    "get_property ?P example_store (Ref 2) ''stack'' = (Inr (Str ''Error: x''), example_store)"
    using plain_reads(1)[OF example_plain(3), of ?P] by (simp_all add: example_simps)
  have d2: "default_extraInfo example_store Undefined = (Ref 16, ?s0)"
    by (simp add: default_extraInfo_def alloc_def example_simps)
  have i2: "instanceof_Error ?P ?s0 (Str ''plain string'') = (Inr False, ?s0)"
    by (simp add: instanceof_Error_def)
  have t2: "String_js ?P ?s0 (Str ''plain string'') = (Inr ''plain string'', ?s0)"
    by (simp add: String_js_def)
  have c0: "console ?s0 = []"
    using default_extraInfo_console[OF d2] by (simp add: example_simps)
  have i3: "instanceof_Error ?P example_store (Ref 13) = (Inr False, example_store)"
    by (simp add: instanceof_Error_def example_simps)
  have "fst (String_js ?P example_store (Ref 13)) = Inl (Ref 16)"
    by (simp add: String_js_def example_simps)
  then have t3: "String_js ?P example_store (Ref 13)
                   = (Inl (Ref 16), snd (String_js ?P example_store (Ref 13)))"
    by (metis prod.collapse)
  note t = logError_record[where P = ?P and s = example_store]
  have general: "logError ?P example_store (Ref 2) (Str ''ctx'') (Ref 12)
                   = (Inr Undefined, example_store\<lparr>console := console example_store @ [?r]\<rparr>)"
    using d1 i1 g1
      t[where extraInfo = "Ref 12" and x = "Ref 12" and ?s0.0 = example_store
        and err = "Ref 2" and ctx = "Str ''ctx''" and ?s1.0 = example_store
        and ?s2.0 = example_store and ?s3.0 = example_store and ?s4.0 = example_store
        and n = "Str ''Error''" and m = "Str ''x''" and k = "Str ''Error: x''"]
    by (simp add: default_context_def coalesce_def nullish_def example_platform_def)
  have first: "console (snd (logError ?P example_store (Ref 2) (Str ''ctx'') (Ref 12))) = [?r]"
    using d1 i1 example_plain(3)
      t[where extraInfo = "Ref 12" and x = "Ref 12" and ?s0.0 = example_store
        and err = "Ref 2" and ctx = "Str ''ctx''" and ?s1.0 = example_store]
    by (simp add: default_context_def coalesce_def nullish_def example_simps)
  have "\<exists>e s3. new_Error ?P ?s0 ''plain string'' = (e, s3) \<and>
          logError ?P example_store (Str ''plain string'') Undefined Undefined =
             (Inr Undefined,
              s3\<lparr>console := console s3 @
                 [\<lparr>log_timestamp = current_time ?P,
                   log_context = default_context Undefined,
                   log_error =
                     \<lparr>info_name = Str ''Error'',
                      info_message = Str ''plain string'',
                      info_stack = (case capture_stack ?P ''plain string'' of
                                      Some t \<Rightarrow> Str t
                                    | None \<Rightarrow> Str ''No stack trace available'')\<rparr>,
                   log_extraInfo = Ref 16\<rparr>]\<rparr>)"
    using d2 i2 t2
      t[where extraInfo = Undefined and x = "Ref 16" and ?s0.0 = ?s0
        and err = "Str ''plain string''" and ctx = Undefined
        and tx = "''plain string''" and ?s1.0 = ?s0 and ?s2.0 = ?s0]
    by blast
  then obtain e s3 where e: "new_Error ?P ?s0 ''plain string'' = (e, s3)"
    and l: "logError ?P example_store (Str ''plain string'') Undefined Undefined =
             (Inr Undefined,
              s3\<lparr>console := console s3 @
                 [\<lparr>log_timestamp = current_time ?P,
                   log_context = default_context Undefined,
                   log_error =
                     \<lparr>info_name = Str ''Error'',
                      info_message = Str ''plain string'',
                      info_stack = (case capture_stack ?P ''plain string'' of
                                      Some t \<Rightarrow> Str t
                                    | None \<Rightarrow> Str ''No stack trace available'')\<rparr>,
                   log_extraInfo = Ref 16\<rparr>]\<rparr>)"
    by blast
  have "console s3 = []"
    using new_Error_result(3)[OF e] c0 by simp
  then have second: "console (snd (logError ?P example_store (Str ''plain string'') Undefined Undefined)) =
     [\<lparr>log_timestamp = ''2024-01-01T00:00:00.000Z'',
       log_context = Str ''General context'',
       log_error = \<lparr>info_name = Str ''Error'', info_message = Str ''plain string'',
                    info_stack = Str ''Error: plain string''\<rparr>,
       log_extraInfo = Ref 16\<rparr>]"
    using l by (simp add: default_context_def example_platform_def)
  have third: "\<exists>s2. logError ?P example_store (Ref 13) (Str ''ctx'') (Ref 12) = (Inl (Ref 16), s2)"
    using d1 i3 t3
      t[where extraInfo = "Ref 12" and x = "Ref 12" and ?s0.0 = example_store
        and err = "Ref 13" and ctx = "Str ''ctx''" and ?s1.0 = example_store
        and thrown = "Ref 16" and ?s2.0 = "snd (String_js ?P example_store (Ref 13))"]
    by blast
  from general first second third show ?thesis by simp
qed

text \<open>
  Claim C10, as stated, fails: the fallbacks for the name and the message are reachable.
  The \<^verbatim>\<open>Error\<close> instance at address 10 of the example store had its \<^verbatim>\<open>name\<close> set to
  \<^verbatim>\<open>undefined\<close> and its \<^verbatim>\<open>message\<close> to \<^verbatim>\<open>null\<close>; \<^verbatim>\<open>logError\<close> uses it as it is and writes
  both fallback texts.
\<close>

theorem logError_fallback_counterexample:
  "instanceof_Error example_platform example_store (Ref 10) = (Inr True, example_store) \<and>
   map log_error
     (console (snd (logError example_platform example_store (Ref 10) Undefined Undefined))) =
     [\<lparr>info_name = Str ''No name available'',
       info_message = Str ''No message available'',
       info_stack = Str ''Error: x''\<rparr>]"
  by (simp add: logError_def Let_def default_extraInfo_def default_context_def alloc_def
      errorObject_of_def instanceof_Error_def get_property_def and_then_simps
      console_error_def coalesce_def nullish_def empty_object_def example_simps)

text \<open>
  Claim C10, amended. For a value that is not an \<^verbatim>\<open>Error\<close> instance and has a text
  \<open>tx\<close>, the record's name is \<^verbatim>\<open>Error\<close> and its message is \<open>tx\<close>: neither fallback is
  taken. For an \<^verbatim>\<open>Error\<close> instance with data properties, the fallback for the name is
  taken exactly when its \<^verbatim>\<open>name\<close> is \<^verbatim>\<open>null\<close> or \<^verbatim>\<open>undefined\<close>, and likewise for the
  message; otherwise the record has the instance's own name and message.
\<close>

theorem logError_fallbacks:
  "default_extraInfo s extraInfo = (x, s0) \<longrightarrow>
     (instanceof_Error P s0 err = (Inr False, s1) \<and> String_js P s1 err = (Inr tx, s2) \<longrightarrow>
        (\<exists>r s'. logError P s err ctx extraInfo = (Inr Undefined, s') \<and>
           console s' = console s2 @ [r] \<and>
           info_name (log_error r) = Str ''Error'' \<and>
           info_message (log_error r) = Str tx)) \<and>
     (plain s0 err \<and> instanceof_Error P s0 err = (Inr True, s1) \<longrightarrow>
        (\<exists>r s'. logError P s err ctx extraInfo = (Inr Undefined, s') \<and>
           console s' = console s @ [r] \<and>
           info_name (log_error r) =
             (if nullish (field s0 err ''name'') then Str ''No name available''
              else field s0 err ''name'') \<and>
           info_message (log_error r) =
             (if nullish (field s0 err ''message'') then Str ''No message available''
              else field s0 err ''message'')))"
proof (intro impI conjI)
  assume d: "default_extraInfo s extraInfo = (x, s0)"
  {
    assume "instanceof_Error P s0 err = (Inr False, s1) \<and> String_js P s1 err = (Inr tx, s2)"
    then obtain e s3 where e: "new_Error P s2 tx = (e, s3)"
      and o: "errorObject_of P s0 err = (Inr e, s3)"
      using errorObject_of_wrapped[of P s0 err s1 tx s2] by blast
    show "\<exists>r s'. logError P s err ctx extraInfo = (Inr Undefined, s') \<and>
           console s' = console s2 @ [r] \<and>
           info_name (log_error r) = Str ''Error'' \<and>
           info_message (log_error r) = Str tx"
      using logError_of_errorObject[OF d o new_Error_result(4,1)[OF e], of ctx]
        new_Error_result(3,5,7)[OF e]
      by (simp add: console_error_def coalesce_def nullish_def)
  next
    assume a: "plain s0 err \<and> instanceof_Error P s0 err = (Inr True, s1)"
    then have "s1 = s0" and "\<exists>a. err = Ref a"
      using instanceof_Error_plain[of s0 err P s1] by simp_all
    then obtain a where r: "err = Ref a"
      by blast
    from a \<open>s1 = s0\<close> have o: "errorObject_of P s0 err = (Inr err, s0)" and p: "plain s0 err"
      by (simp_all add: errorObject_of_def and_then_simps)
    show "\<exists>r s'. logError P s err ctx extraInfo = (Inr Undefined, s') \<and>
           console s' = console s @ [r] \<and>
           info_name (log_error r) =
             (if nullish (field s0 err ''name'') then Str ''No name available''
              else field s0 err ''name'') \<and>
           info_message (log_error r) =
             (if nullish (field s0 err ''message'') then Str ''No message available''
              else field s0 err ''message'')"
      using logError_of_errorObject[OF d o p r, of ctx] default_extraInfo_console[OF d]
      by (simp add: console_error_def coalesce_def)
  }
qed

text \<open>
  Claim C10, amended, at \<^verbatim>\<open>logError("plain string")\<close>, where no fallback is taken, and at
  \<^verbatim>\<open>logError(new Error("x"))\<close> (address 2), whose own name and message are recorded.
\<close>

theorem logError_fallbacks_witness:
  "map (\<lambda>r. (info_name (log_error r), info_message (log_error r)))
     (console (snd (logError example_platform example_store (Str ''plain string'') Undefined Undefined)))
     = [(Str ''Error'', Str ''plain string'')] \<and>
   map (\<lambda>r. (info_name (log_error r), info_message (log_error r)))
     (console (snd (logError example_platform example_store (Ref 2) Undefined (Ref 12))))
     = [(Str ''Error'', Str ''x'')]"
proof -
  let ?P = example_platform
  let ?s0 = "snd (alloc example_store empty_object)"
  have d1: "default_extraInfo example_store Undefined = (Ref 16, ?s0)"
    by (simp add: default_extraInfo_def alloc_def example_simps)
  have i1: "instanceof_Error ?P ?s0 (Str ''plain string'') = (Inr False, ?s0)"
    by (simp add: instanceof_Error_def)
  have t1: "String_js ?P ?s0 (Str ''plain string'') = (Inr ''plain string'', ?s0)"
    by (simp add: String_js_def)
  have c0: "console ?s0 = []"
    using default_extraInfo_console[OF d1] by (simp add: example_simps)
  have d2: "default_extraInfo example_store (Ref 12) = (Ref 12, example_store)"
    by (simp add: default_extraInfo_def)
  have i2: "instanceof_Error ?P example_store (Ref 2) = (Inr True, example_store)"
    by (simp add: instanceof_Error_def example_simps)
  have f2: "field example_store (Ref 2) ''name'' = Str ''Error''"
    "field example_store (Ref 2) ''message'' = Str ''x''"
    by (simp_all add: example_simps)
  from logError_fallbacks[where s = example_store and extraInfo = Undefined and x = "Ref 16"
      and ?s0.0 = ?s0 and err = "Str ''plain string''" and P = ?P and ctx = Undefined
      and tx = "''plain string''" and ?s1.0 = ?s0 and ?s2.0 = ?s0]
    logError_fallbacks[where s = example_store and extraInfo = "Ref 12" and x = "Ref 12"
      and ?s0.0 = example_store and err = "Ref 2" and P = ?P and ctx = Undefined
      and ?s1.0 = example_store]
  show ?thesis
    using d1 i1 t1 c0 d2 i2 f2 example_plain(3) by (auto simp: nullish_def example_simps)
qed

end
